theory Spec2Isabelle
  imports Complex_Main "HOL-Library.AList" "HOL-Library.Sublist" "HOL-Library.Multiset"
begin

section \<open>Values of the JavaScript runtime\<close>

text \<open>
  The script \<^verbatim>\<open>scripts/daily-portfolio-maintenance.js\<close> runs under node. Its numbers
  are modelled by \<open>jsnum\<close>: \<open>Num n\<close> is the double whose value is the integer \<open>n\<close>
  (exact below \<open>2^53\<close>; negative zero is identified with zero, which no operation used
  here tells apart) and \<open>NaN\<close> is not-a-number. Fractions and infinities are outside
  the model. Exceptions are values of \<open>exn\<close>.
\<close>

datatype jsnum = NaN | Num int

datatype exn = SyntaxError | TypeError | IOError | HttpError string

text \<open>
  What \<^verbatim>\<open>JSON.parse\<close> returns. An object keeps its members in the order of the
  text; on a repeated key the last member is the one a property read sees.
\<close>

datatype json =
    JNull
  | JBool bool
  | JNum int
  | JStr string
  | JArr "json list"
  | JObj "(string \<times> json) list"

text \<open>The four-byte UTF-8 encodings of the emoji that the script's messages start with.\<close>

definition emoji_robot :: string where
  "emoji_robot = [CHR 0xF0, CHR 0x9F, CHR 0xA4, CHR 0x96]"

definition emoji_red :: string where
  "emoji_red = [CHR 0xF0, CHR 0x9F, CHR 0x94, CHR 0xB4]"

definition emoji_orange :: string where
  "emoji_orange = [CHR 0xF0, CHR 0x9F, CHR 0x9F, CHR 0xA0]"

definition emoji_yellow :: string where
  "emoji_yellow = [CHR 0xF0, CHR 0x9F, CHR 0x9F, CHR 0xA1]"

definition emoji_package :: string where
  "emoji_package = [CHR 0xF0, CHR 0x9F, CHR 0x93, CHR 0xA6]"

text \<open>
  The decimal numeral of a natural number and of an integer, as JavaScript prints an
  integer of magnitude below \<open>10^21\<close>.
\<close>

definition digit :: "nat \<Rightarrow> char" where
  "digit d = ''0123456789'' ! d"

function decimal :: "nat \<Rightarrow> string" where
  "decimal n = (if n < 10 then [digit n] else decimal (n div 10) @ [digit (n mod 10)])"
  by pat_completeness auto
termination
  by (relation "measure id") auto

declare decimal.simps [simp del]

definition NumberToString :: "int \<Rightarrow> string" where
  "NumberToString i = (if i < 0 then CHR ''-'' # decimal (nat (- i)) else decimal (nat i))"

text \<open>
  \<^verbatim>\<open>a % b\<close> on numbers: the remainder of the division truncated towards zero, with
  the sign of the dividend; not-a-number when an operand is, or when the divisor is zero.
\<close>

fun js_rem :: "jsnum \<Rightarrow> jsnum \<Rightarrow> jsnum" where
  "js_rem (Num a) (Num b) = (if b = 0 then NaN else Num (sgn a * (\<bar>a\<bar> mod \<bar>b\<bar>)))"
| "js_rem _ _ = NaN"

text \<open>\<^verbatim>\<open>a - b\<close> on numbers.\<close>

fun js_sub :: "jsnum \<Rightarrow> jsnum \<Rightarrow> jsnum" where
  "js_sub (Num a) (Num b) = Num (a - b)"
| "js_sub _ _ = NaN"

text \<open>
  \<^verbatim>\<open>Array.prototype.toString\<close> on a parsed array joins the elements' strings with
  commas; \<open>null\<close> gives the empty string and an object \<^verbatim>\<open>[object Object]\<close>.
\<close>

fun ToString :: "json \<Rightarrow> string"
  and join :: "json list \<Rightarrow> string" where
  "ToString JNull = ''null''"
| "ToString (JBool b) = (if b then ''true'' else ''false'')"
| "ToString (JNum n) = NumberToString n"
| "ToString (JStr s) = s"
| "ToString (JArr xs) = join xs"
| "ToString (JObj kvs) = ''[object Object]''"
| "join [] = []"
| "join [x] = (case x of JNull \<Rightarrow> [] | _ \<Rightarrow> ToString x)"
| "join (x # y # ys) = (case x of JNull \<Rightarrow> [] | _ \<Rightarrow> ToString x) @ '','' @ join (y # ys)"

text \<open>
  The value of \<^verbatim>\<open>v + 1\<close> for a property value \<open>v\<close> (\<open>None\<close> is \<open>undefined\<close>): a
  number when \<open>v\<close> is undefined, null, a boolean or a number, and otherwise the string
  of \<open>v\<close> followed by the character 1.
\<close>

datatype prim = PNum jsnum | PStr string

fun plus_one :: "json option \<Rightarrow> prim" where
  "plus_one None = PNum NaN"
| "plus_one (Some JNull) = PNum (Num 1)"
| "plus_one (Some (JBool b)) = PNum (Num ((if b then 1 else 0) + 1))"
| "plus_one (Some (JNum n)) = PNum (Num (n + 1))"
| "plus_one (Some v) = PStr (ToString v @ ''1'')"

text \<open>
  The conversion of a string to a number is the runtime's (its grammar of numeric
  literals is not part of the script); the model takes it as the parameter \<open>str2num\<close>.
\<close>

fun ToNumber :: "(string \<Rightarrow> jsnum) \<Rightarrow> prim \<Rightarrow> jsnum" where
  "ToNumber str2num (PNum x) = x"
| "ToNumber str2num (PStr s) = str2num s"

section \<open>Section 1: the rotation of the fact category\<close>

definition ROTATION_CYCLE :: "string list" where
  "ROTATION_CYCLE = [''LIFE'', ''PEOPLE'', ''TECH'']"

text \<open>
  \<^verbatim>\<open>ROTATION_CYCLE[x]\<close>: the element when \<open>x\<close> is an index of the array, and
  \<open>undefined\<close> (\<open>None\<close>) otherwise.
\<close>

fun cycle_at :: "jsnum \<Rightarrow> string option" where
  "cycle_at NaN = None"
| "cycle_at (Num n) =
     (if 0 \<le> n \<and> n < int (length ROTATION_CYCLE) then Some (ROTATION_CYCLE ! nat n) else None)"

record rotation_state =
  currentIndex :: jsnum
  lastUpdated :: string
  currentCategory :: "string option"

text \<open>
  The file system as the function sees it: whether the data directory exists, and the
  state file, absent (\<open>None\<close>) or present. A present file is \<open>Garbled\<close> when reading
  or parsing it throws, and \<open>Json v\<close> when its text parses to \<open>v\<close>. Writes succeed.
\<close>

datatype file_content = Garbled | Json json

record fs =
  dir_exists :: bool
  state_file :: "file_content option"

text \<open>\<^verbatim>\<open>JSON.parse(fs.readFileSync(statsFile, 'utf8'))\<close>.\<close>

fun read_json :: "file_content \<Rightarrow> exn + json" where
  "read_json Garbled = Inl SyntaxError"
| "read_json (Json v) = Inr v"

text \<open>
  \<^verbatim>\<open>existing.currentIndex\<close>: a type error on \<open>null\<close>; the member of an object (the
  last one of that name); \<open>undefined\<close> on an object without it and on a boolean,
  number, string or array.
\<close>

fun get_currentIndex :: "json \<Rightarrow> exn + json option" where
  "get_currentIndex JNull = Inl TypeError"
| "get_currentIndex (JObj kvs) = Inr (map_of (rev kvs) ''currentIndex'')"
| "get_currentIndex _ = Inr None"

text \<open>The body of the \<^verbatim>\<open>try\<close> block: the index it assigns, or what it throws.\<close>

definition next_index :: "(string \<Rightarrow> jsnum) \<Rightarrow> file_content \<Rightarrow> exn + jsnum" where
  "next_index str2num f =
     (case read_json f of
        Inl e \<Rightarrow> Inl e
      | Inr existing \<Rightarrow>
          (case get_currentIndex existing of
             Inl e \<Rightarrow> Inl e
           | Inr v \<Rightarrow>
               Inr (js_rem (ToNumber str2num (plus_one v))
                      (Num (int (length ROTATION_CYCLE))))))"

text \<open>
  \<^verbatim>\<open>JSON.stringify(state, null, 2)\<close>, as the value its text parses back to:
  not-a-number is written as \<open>null\<close> and an undefined member is left out.
\<close>

definition stringify :: "rotation_state \<Rightarrow> json" where
  "stringify st =
     JObj ([(''currentIndex'', case currentIndex st of NaN \<Rightarrow> JNull | Num n \<Rightarrow> JNum n),
            (''lastUpdated'', JStr (lastUpdated st))]
           @ (case currentCategory st of None \<Rightarrow> [] | Some c \<Rightarrow> [(''currentCategory'', JStr c)]))"

text \<open>
  \<open>rotateFactCategory\<close>. \<open>now\<close> is what \<^verbatim>\<open>new Date().toISOString()\<close> returns (the
  first reading is overwritten by the second before anything observes it). The result
  is the returned state with the file system after the call; an exception that leaves
  the function would be \<open>Inl\<close>.
\<close>

definition rotateFactCategory ::
  "(string \<Rightarrow> jsnum) \<Rightarrow> string \<Rightarrow> fs \<Rightarrow> exn + (rotation_state \<times> fs)" where
  "rotateFactCategory str2num now fs0 =
     (let fs1 = (if \<not> dir_exists fs0 then fs0\<lparr>dir_exists := True\<rparr> else fs0);
          state0 = \<lparr>currentIndex = Num 0, lastUpdated = now, currentCategory = None\<rparr>;
          state1 =
            (case state_file fs1 of
               None \<Rightarrow> state0
             | Some f \<Rightarrow>
                 (case next_index str2num f of
                    Inr i \<Rightarrow> state0\<lparr>currentIndex := i\<rparr>
                  | Inl e \<Rightarrow> state0));
          state2 = state1\<lparr>currentCategory := cycle_at (currentIndex state1)\<rparr>;
          state3 = state2\<lparr>lastUpdated := now\<rparr>;
          fs2 = fs1\<lparr>state_file := Some (Json (stringify state3))\<rparr>
      in Inr (state3, fs2))"

text \<open>
  Consecutive invocations, one per reading of the clock, each on the file system the
  previous one left: the states they return, in order. An exception ends the run.
\<close>

fun invocations ::
  "(string \<Rightarrow> jsnum) \<Rightarrow> string list \<Rightarrow> fs \<Rightarrow> exn + rotation_state list" where
  "invocations str2num [] fs0 = Inr []"
| "invocations str2num (now # ts) fs0 =
     (case rotateFactCategory str2num now fs0 of
        Inl e \<Rightarrow> Inl e
      | Inr (st, fs1) \<Rightarrow>
          (case invocations str2num ts fs1 of
             Inl e \<Rightarrow> Inl e
           | Inr sts \<Rightarrow> Inr (st # sts)))"

section \<open>Section 2: repository statistics\<close>

text \<open>
  A repository as the listing of the hosting platform returns it (the members the script
  reads). \<open>None\<close> is \<open>null\<close> or a missing member.
\<close>

record api_repo =
  repo_name :: string
  repo_html_url :: string
  repo_description :: "string option"
  repo_language :: "string option"
  repo_stargazers_count :: int
  repo_forks_count :: int
  repo_open_issues_count :: int
  repo_topics :: "string list option"
  repo_fork :: bool
  repo_private :: bool
  repo_archived :: bool
  repo_size :: int
  repo_watchers_count :: int
  repo_updated_at :: string
  repo_created_at :: string
  repo_pushed_at :: string
  repo_visibility :: string
  repo_default_branch :: string

text \<open>
  \<open>total_commits\<close> and \<open>recent_activity\<close> hold a number, or the string \<^verbatim>\<open>'N/A'\<close>
  when the commit activity could not be fetched.
\<close>

datatype activity = Count int | NA

record repo_stat =
  name :: string
  url :: string
  description :: string
  language :: string
  stars :: int
  forks :: int
  open_issues :: int
  topics :: "string list"
  is_fork :: bool
  is_private :: bool
  is_archived :: bool
  size_kb :: int
  watchers :: int
  last_updated :: string
  created_at :: string
  pushed_at :: string
  visibility :: string
  default_branch :: string
  total_commits :: activity
  recent_activity :: activity

text \<open>An issue as the platform lists it; \<open>updated_at\<close> is the instant in milliseconds.\<close>

record issue =
  number :: int
  title :: string
  body :: "string option"
  updated_at :: int
  pull_request :: bool

text \<open>
  The injected REST client. The two listings and the commit activity return data or
  throw; \<open>rejects\<close> says which exception, if any, a call that changes an issue throws.
\<close>

record listForUser_params =
  username :: string
  repo_type :: string
  sort_by :: string
  direction :: string
  per_page :: nat
  page :: nat

record listForRepo_params =
  issues_owner :: string
  issues_repo :: string
  issues_state :: string
  issues_labels :: "string option"
  issues_per_page :: nat

datatype api_call =
    CreateComment string string int string
  | UpdateIssue string string int string string
  | AddLabels string string int "string list"

record octokit =
  listForUser :: "listForUser_params \<Rightarrow> exn + api_repo list"
  getCommitActivityData :: "string \<Rightarrow> string \<Rightarrow> exn + int list"
  listForRepo :: "listForRepo_params \<Rightarrow> exn + issue list"
  rejects :: "api_call \<Rightarrow> exn option"

text \<open>
  The \<^verbatim>\<open>while (true)\<close> loop of \<open>fetchRepositoryStats\<close>: \<open>repos\<close> is what has been
  pushed so far. The loop may run forever; then the value is \<open>None\<close>. An exception of
  the listing leaves the loop (\<open>Inl\<close>).
\<close>

definition page_request :: "string \<Rightarrow> nat \<Rightarrow> listForUser_params" where
  "page_request owner p =
     \<lparr>username = owner, repo_type = ''public'', sort_by = ''updated'', direction = ''desc'',
      per_page = 100, page = p\<rparr>"

partial_function (option) collect_pages ::
  "octokit \<Rightarrow> string \<Rightarrow> nat \<Rightarrow> api_repo list \<Rightarrow> (exn + api_repo list) option" where
  "collect_pages oct owner p repos =
     (case listForUser oct (page_request owner p) of
        Inl e \<Rightarrow> Some (Inl e)
      | Inr data \<Rightarrow>
          if length data = 0 then Some (Inr repos)
          else collect_pages oct owner (p + 1) (repos @ data))"

text \<open>The data of page \<open>p\<close> of the listing, empty when the request throws.\<close>

definition page_data :: "octokit \<Rightarrow> string \<Rightarrow> nat \<Rightarrow> api_repo list" where
  "page_data oct owner p =
     (case listForUser oct (page_request owner p) of Inl e \<Rightarrow> [] | Inr data \<Rightarrow> data)"

text \<open>\<^verbatim>\<open>v || d\<close> for a string or null \<open>v\<close>: null and the empty string are falsy.\<close>

definition or_string :: "string option \<Rightarrow> string \<Rightarrow> string" where
  "or_string v d = (case v of None \<Rightarrow> d | Some s \<Rightarrow> if s = [] then d else s)"

text \<open>
  The callback of \<^verbatim>\<open>repos.map\<close>. The two activity members are added by the
  enrichment below; before it they are absent, which \<open>NA\<close> stands for here.
\<close>

definition to_stat :: "api_repo \<Rightarrow> repo_stat" where
  "to_stat repo =
     \<lparr>name = repo_name repo,
      url = repo_html_url repo,
      description = or_string (repo_description repo) ''N/A'',
      language = or_string (repo_language repo) ''Unknown'',
      stars = repo_stargazers_count repo,
      forks = repo_forks_count repo,
      open_issues = repo_open_issues_count repo,
      topics = (case repo_topics repo of None \<Rightarrow> [] | Some ts \<Rightarrow> ts),
      is_fork = repo_fork repo,
      is_private = repo_private repo,
      is_archived = repo_archived repo,
      size_kb = repo_size repo,
      watchers = repo_watchers_count repo,
      last_updated = repo_updated_at repo,
      created_at = repo_created_at repo,
      pushed_at = repo_pushed_at repo,
      visibility = repo_visibility repo,
      default_branch = repo_default_branch repo,
      total_commits = NA,
      recent_activity = NA\<rparr>"

text \<open>\<^verbatim>\<open>data.slice(-4)\<close>: the last four elements, or all of them when there are fewer.\<close>

definition last4 :: "'a list \<Rightarrow> 'a list" where
  "last4 xs = drop (length xs - 4) xs"

text \<open>
  The callback of the enrichment: the weekly totals summed, all of them and the last
  four; \<^verbatim>\<open>'N/A'\<close> twice when the fetch (or the reduction of its data) throws.
\<close>

definition enrich :: "octokit \<Rightarrow> string \<Rightarrow> repo_stat \<Rightarrow> repo_stat" where
  "enrich oct owner repo =
     (case getCommitActivityData oct owner (name repo) of
        Inr weeks \<Rightarrow>
          repo\<lparr>total_commits := Count (sum_list weeks),
               recent_activity := Count (sum_list (last4 weeks))\<rparr>
      | Inl e \<Rightarrow> repo\<lparr>total_commits := NA, recent_activity := NA\<rparr>)"

text \<open>
  \<open>fetchRepositoryStats\<close>: \<open>None\<close> when the pagination never ends, the empty list when
  the listing throws (the outer \<^verbatim>\<open>catch\<close>), and the enriched records otherwise.
\<close>

definition fetchRepositoryStats :: "octokit \<Rightarrow> string \<Rightarrow> repo_stat list option" where
  "fetchRepositoryStats oct owner =
     (case collect_pages oct owner 1 [] of
        None \<Rightarrow> None
      | Some (Inl e) \<Rightarrow> Some []
      | Some (Inr repos) \<Rightarrow> Some (map (enrich oct owner) (map to_stat repos)))"

text \<open>
  The comparator of the sort, \<^verbatim>\<open>(b.recent_activity || 0) - (a.recent_activity || 0)\<close>.
  \<^verbatim>\<open>x || 0\<close> replaces a falsy \<open>x\<close> by 0: the number 0 is falsy, the non-empty string
  \<^verbatim>\<open>'N/A'\<close> is not and stays. The subtraction converts its operands to numbers, and
  \<^verbatim>\<open>'N/A'\<close> converts to not-a-number.
\<close>

fun or_zero :: "activity \<Rightarrow> activity" where
  "or_zero (Count n) = (if n = 0 then Count 0 else Count n)"
| "or_zero NA = NA"

fun activity_number :: "activity \<Rightarrow> jsnum" where
  "activity_number (Count n) = Num n"
| "activity_number NA = NaN"

definition compare_activity :: "repo_stat \<Rightarrow> repo_stat \<Rightarrow> jsnum" where
  "compare_activity a b =
     js_sub (activity_number (or_zero (recent_activity b)))
            (activity_number (or_zero (recent_activity a)))"

text \<open>
  \<^verbatim>\<open>Array.prototype.sort\<close> with a comparator. The language fixes how a result of the
  comparator is read (not-a-number counts as 0, \<open>SortCompare\<close>) and, for a consistent
  comparator, the result: the stable sort. \<open>sort_with\<close> is the insertion sort, which
  moves each element left past the elements it is less than; it computes the stable sort
  in the consistent case. For an inconsistent comparator the order is the engine's own,
  and node (which looks for a sorted run and then inserts by binary search) can order
  such an array differently from \<open>sort_with\<close>. The two agree where all neighbouring
  pairs of the array compare as ties: then both leave the array as it is. No property
  below uses \<open>sort_with\<close> on an inconsistent comparator beyond that case.
\<close>

definition SortCompare :: "('a \<Rightarrow> 'a \<Rightarrow> jsnum) \<Rightarrow> 'a \<Rightarrow> 'a \<Rightarrow> int" where
  "SortCompare comparefn x y = (case comparefn x y of NaN \<Rightarrow> 0 | Num v \<Rightarrow> v)"

text \<open>\<open>move_left c x ys\<close>: \<open>ys\<close> is the sorted prefix, last element first.\<close>

fun move_left :: "('a \<Rightarrow> 'a \<Rightarrow> jsnum) \<Rightarrow> 'a \<Rightarrow> 'a list \<Rightarrow> 'a list" where
  "move_left c x [] = [x]"
| "move_left c x (y # ys) =
     (if SortCompare c x y < 0 then y # move_left c x ys else x # y # ys)"

definition sort_with :: "('a \<Rightarrow> 'a \<Rightarrow> jsnum) \<Rightarrow> 'a list \<Rightarrow> 'a list" where
  "sort_with c xs = rev (foldl (\<lambda>acc x. move_left c x acc) [] xs)"

text \<open>
  The tally by language, \<^verbatim>\<open>by_language[l] = (by_language[l] || 0) + 1\<close>, on an object
  that starts empty: an association list in the order the keys were added. Language
  names are taken not to be names of members that every object inherits.
\<close>

definition bump :: "(string \<times> int) list \<Rightarrow> string \<Rightarrow> (string \<times> int) list" where
  "bump m l =
     AList.update l ((case map_of m l of None \<Rightarrow> 0 | Some n \<Rightarrow> if n = 0 then 0 else n) + 1) m"

fun count_languages :: "repo_stat list \<Rightarrow> (string \<times> int) list \<Rightarrow> (string \<times> int) list" where
  "count_languages [] m = m"
| "count_languages (repo # rest) m =
     count_languages rest (if language repo \<noteq> [] then bump m (language repo) else m)"

record stats_summary =
  timestamp :: string
  total_repos :: nat
  active_repos :: nat
  total_stars :: int
  total_forks :: int
  by_language :: "(string \<times> int) list"
  most_active :: "(string \<times> activity) list"
  repositories :: "repo_stat list"

text \<open>
  \<open>saveRepositoryStats\<close>. The sort works in place on the caller's array, and
  \<open>repositories\<close> is that same array: the function returns the summary together with
  the caller's array as the call leaves it. Writing the file has no part in either.
\<close>

definition saveRepositoryStats :: "string \<Rightarrow> repo_stat list \<Rightarrow> stats_summary \<times> repo_stat list" where
  "saveRepositoryStats now stats =
     (let sorted = sort_with compare_activity stats;
          summary =
            \<lparr>timestamp = now,
             total_repos = length stats,
             active_repos = length (filter (\<lambda>r. \<not> is_archived r) stats),
             total_stars = foldl (\<lambda>sum r. sum + stars r) 0 stats,
             total_forks = foldl (\<lambda>sum r. sum + forks r) 0 stats,
             by_language = [],
             most_active = map (\<lambda>r. (name r, recent_activity r)) (take 5 sorted),
             repositories = sorted\<rparr>
      in (summary\<lparr>by_language := count_languages sorted (by_language summary)\<rparr>, sorted))"

text \<open>
  Section 2 of \<open>runDailyMaintenance\<close>: the records that \<open>fetchRepositoryStats\<close>
  returns are handed to \<open>saveRepositoryStats\<close>; the result is \<open>savedStats\<close> with
  \<open>repoStats\<close> as the call leaves it.
\<close>

definition fetch_and_save ::
  "octokit \<Rightarrow> string \<Rightarrow> string \<Rightarrow> (stats_summary \<times> repo_stat list) option" where
  "fetch_and_save oct owner now =
     (case fetchRepositoryStats oct owner of
        None \<Rightarrow> None
      | Some repoStats \<Rightarrow> Some (saveRepositoryStats now repoStats))"

section \<open>Section 4: repository lifecycle\<close>

text \<open>
  \<^verbatim>\<open>cutoffDate.setDate(cutoffDate.getDate() - daysInactive)\<close> moves the date back by
  whole days of the local calendar. The job runs in UTC, where a day is 86400000
  milliseconds; \<open>now\<close> is the instant \<^verbatim>\<open>new Date()\<close> reads.
\<close>

definition ms_per_day :: int where
  "ms_per_day = 86400000"

definition cutoffDate :: "int \<Rightarrow> int \<Rightarrow> int" where
  "cutoffDate now daysInactive = now - daysInactive * ms_per_day"

text \<open>The predicate of \<^verbatim>\<open>issues.data.filter\<close>.\<close>

definition is_stale :: "int \<Rightarrow> issue \<Rightarrow> bool" where
  "is_stale cutoff i = (updated_at i < cutoff \<and> \<not> pull_request i)"

definition closing_comment :: "int \<Rightarrow> string" where
  "closing_comment daysInactive =
     emoji_robot @ '' Closing due to inactivity ('' @ NumberToString daysInactive @
     ''+ days). Feel free to reopen if still relevant.''"

text \<open>
  The \<^verbatim>\<open>for\<close> loop over the stale issues. \<open>calls\<close> are the calls the platform has
  carried out so far, \<open>pushed\<close> the entries of \<open>closed\<close> so far. A call that throws ends the
  loop with the exception.
\<close>

fun close_loop ::
  "octokit \<Rightarrow> string \<Rightarrow> string \<Rightarrow> int \<Rightarrow> issue list \<Rightarrow> api_call list \<Rightarrow> (int \<times> string) list
     \<Rightarrow> api_call list \<times> (exn + (int \<times> string) list)" where
  "close_loop oct owner repo d [] calls pushed = (calls, Inr pushed)"
| "close_loop oct owner repo d (i # rest) calls pushed =
     (case rejects oct (CreateComment owner repo (number i) (closing_comment d)) of
        Some e \<Rightarrow> (calls, Inl e)
      | None \<Rightarrow>
          (case rejects oct (UpdateIssue owner repo (number i) ''closed'' ''not_planned'') of
             Some e \<Rightarrow> (calls @ [CreateComment owner repo (number i) (closing_comment d)], Inl e)
           | None \<Rightarrow>
               close_loop oct owner repo d rest
                 (calls @ [CreateComment owner repo (number i) (closing_comment d),
                           UpdateIssue owner repo (number i) ''closed'' ''not_planned''])
                 (pushed @ [(number i, title i)])))"

record stale_result =
  stale_repo :: string
  stale_count :: nat
  closed_count :: nat
  closed :: "(int \<times> string) list"

text \<open>
  \<open>closeStaleIssues\<close>; \<open>daysInactive = None\<close> is the omitted argument, which defaults
  to 30. The result is the calls carried out, with the object returned: the repository
  and the error from the \<^verbatim>\<open>catch\<close> (\<open>Inl\<close>), or the counts and the closed list.
\<close>

definition closeStaleIssues ::
  "octokit \<Rightarrow> string \<Rightarrow> string \<Rightarrow> int option \<Rightarrow> int
     \<Rightarrow> api_call list \<times> ((string \<times> exn) + stale_result)" where
  "closeStaleIssues oct owner repo daysInactive now =
     (let d = (case daysInactive of None \<Rightarrow> 30 | Some v \<Rightarrow> v);
          cutoff = cutoffDate now d
      in case listForRepo oct \<lparr>issues_owner = owner, issues_repo = repo, issues_state = ''open'',
                                issues_labels = None, issues_per_page = 100\<rparr> of
           Inl e \<Rightarrow> ([], Inl (repo, e))
         | Inr data \<Rightarrow>
             (let staleIssues = filter (is_stale cutoff) data
              in case close_loop oct owner repo d staleIssues [] [] of
                   (calls, Inl e) \<Rightarrow> (calls, Inl (repo, e))
                 | (calls, Inr pushed) \<Rightarrow>
                     (calls, Inr \<lparr>stale_repo = repo, stale_count = length staleIssues,
                                   closed_count = length pushed, closed = pushed\<rparr>)))"

text \<open>
  The label rules, in the order of the object literal. Each regular expression is an
  alternation of plain lower-case words with the flag \<^verbatim>\<open>i\<close>, so \<^verbatim>\<open>regex.test(s)\<close>
  holds exactly when one of the words occurs in \<open>s\<close> with the ASCII letters of \<open>s\<close>
  lowered (a character outside ASCII matches no ASCII letter).
\<close>

definition labelRules :: "(string \<times> string list) list" where
  "labelRules =
     [(''bug'', [''bug'', ''error'', ''crash'', ''fail'']),
      (''feature'', [''feature'', ''enhancement'', ''request'', ''add'']),
      (''documentation'', [''doc'', ''readme'', ''guide'', ''tutorial'']),
      (''question'', [''how'', ''why'', ''what'', ''help'', ''support'']),
      (''good first issue'', [''beginner'', ''starter'', ''simple''])]"

definition lower_ascii :: "char \<Rightarrow> char" where
  "lower_ascii c =
     (case map_of (zip ''ABCDEFGHIJKLMNOPQRSTUVWXYZ'' ''abcdefghijklmnopqrstuvwxyz'') c of
        Some l \<Rightarrow> l
      | None \<Rightarrow> c)"

definition regex_test :: "string list \<Rightarrow> string \<Rightarrow> bool" where
  "regex_test words s = list_ex (\<lambda>w. sublist w (map lower_ascii s)) words"

text \<open>\<^verbatim>\<open>issue.title + ' ' + (issue.body || '')\<close>.\<close>

definition issue_text :: "issue \<Rightarrow> string" where
  "issue_text i = title i @ '' '' @ or_string (body i) ''''"

definition matchedLabels :: "string \<Rightarrow> string list" where
  "matchedLabels s = map fst (filter (\<lambda>(label, regex). regex_test regex s) labelRules)"

text \<open>The \<^verbatim>\<open>for\<close> loop of \<open>autoLabelIssues\<close>, with the counter \<open>labeled\<close>.\<close>

fun label_loop ::
  "octokit \<Rightarrow> string \<Rightarrow> string \<Rightarrow> issue list \<Rightarrow> api_call list \<Rightarrow> nat
     \<Rightarrow> api_call list \<times> (exn + nat)" where
  "label_loop oct owner repo [] calls labeled = (calls, Inr labeled)"
| "label_loop oct owner repo (i # rest) calls labeled =
     (if length (matchedLabels (issue_text i)) > 0 then
        (case rejects oct (AddLabels owner repo (number i) (matchedLabels (issue_text i))) of
           Some e \<Rightarrow> (calls, Inl e)
         | None \<Rightarrow>
             label_loop oct owner repo rest
               (calls @ [AddLabels owner repo (number i) (matchedLabels (issue_text i))])
               (labeled + 1))
      else label_loop oct owner repo rest calls labeled)"

record label_result =
  label_repo :: string
  processed :: nat
  labeled :: nat

definition autoLabelIssues ::
  "octokit \<Rightarrow> string \<Rightarrow> string \<Rightarrow> api_call list \<times> ((string \<times> exn) + label_result)" where
  "autoLabelIssues oct owner repo =
     (case listForRepo oct \<lparr>issues_owner = owner, issues_repo = repo, issues_state = ''open'',
                             issues_labels = Some '''', issues_per_page = 50\<rparr> of
        Inl e \<Rightarrow> ([], Inl (repo, e))
      | Inr data \<Rightarrow>
          (case label_loop oct owner repo data [] 0 of
             (calls, Inl e) \<Rightarrow> (calls, Inl (repo, e))
           | (calls, Inr n) \<Rightarrow>
               (calls, Inr \<lparr>label_repo = repo, processed = length data, labeled = n\<rparr>)))"

section \<open>Section 5: the health report\<close>

record lint_check =
  check_language :: string
  status :: string
  issues :: "int option"
  details :: "json option"
  message :: "string option"

record lint_summary =
  total :: int
  passed :: int
  failed :: int
  warnings :: int

record lint_results =
  lint_timestamp :: string
  checks :: "lint_check list"
  lint_summary :: lint_summary

record vuln_summary =
  critical :: int
  high :: int
  moderate :: int
  low :: int

record vuln_results =
  vuln_timestamp :: string
  npm_audit :: "json option"
  python_safety :: "json option"
  summary :: vuln_summary

record portfolio_health =
  overall_score :: int
  health_repositories :: nat
  health_total_stars :: int
  health_recent_activity :: string

record health_report =
  report_timestamp :: string
  portfolio_health :: portfolio_health
  code_quality :: lint_results
  security :: vuln_results
  recommendations :: "string list"

definition critical_message :: string where
  "critical_message = emoji_red @ '' CRITICAL: Address security vulnerabilities immediately''"

definition high_message :: string where
  "high_message = emoji_orange @ '' HIGH: Review and patch high-priority vulnerabilities''"

definition medium_message :: string where
  "medium_message = emoji_yellow @ '' MEDIUM: Fix linting errors across repositories''"

definition archive_message :: string where
  "archive_message =
     emoji_package @ '' Consider archiving completed projects for better organization''"

text \<open>
  \<^verbatim>\<open>Object.keys(lintResults.checks)\<close> of an array: its indices, as strings. The
  callback of \<^verbatim>\<open>some\<close> then reads \<^verbatim>\<open>c.status\<close> of such a string, and a string has
  no member of that name: the read gives \<open>undefined\<close> (\<open>None\<close>).
\<close>

definition Object_keys :: "'a list \<Rightarrow> string list" where
  "Object_keys xs = map decimal [0..<length xs]"

definition status_of_key :: "string \<Rightarrow> string option" where
  "status_of_key c = None"

text \<open>\<^verbatim>\<open>recommendations.push(m)\<close> under a condition.\<close>

definition push_if :: "bool \<Rightarrow> string \<Rightarrow> string list \<Rightarrow> string list" where
  "push_if b m recs = (if b then recs @ [m] else recs)"

text \<open>
  \<open>generateHealthReport\<close>; \<open>statsData\<close> is the summary of \<open>saveRepositoryStats\<close>.
  Writing the file has no part in the report returned.
\<close>

definition generateHealthReport ::
  "string \<Rightarrow> lint_results \<Rightarrow> vuln_results \<Rightarrow> stats_summary \<Rightarrow> health_report" where
  "generateHealthReport now lintResults vulnResults statsData =
     (let report =
            \<lparr>report_timestamp = now,
             portfolio_health =
               \<lparr>overall_score = 85,
                health_repositories = active_repos statsData,
                health_total_stars = total_stars statsData,
                health_recent_activity = ''active''\<rparr>,
             code_quality = lintResults,
             security = vulnResults,
             recommendations = []\<rparr>;
          r1 = push_if (critical (summary vulnResults) > 0) critical_message
                 (recommendations report);
          r2 = push_if (high (summary vulnResults) > 0) high_message r1;
          r3 = push_if (list_ex (\<lambda>c. status_of_key c = Some ''failed'')
                          (Object_keys (checks lintResults)))
                 medium_message r2;
          r4 = push_if (int (total_repos statsData) - int (active_repos statsData) > 5)
                 archive_message r3
      in report\<lparr>recommendations := r4\<rparr>)"

section \<open>Example data\<close>

text \<open>
  Concrete inputs for the instances below: a listed repository with a given name and
  language, and a client that serves given pages, commit activity and open issues and
  carries out every call.
\<close>

definition example_repo :: "string \<Rightarrow> string option \<Rightarrow> api_repo" where
  "example_repo n l =
     \<lparr>repo_name = n,
      repo_html_url = ''https://github.com/owner/'' @ n,
      repo_description = None,
      repo_language = l,
      repo_stargazers_count = 1,
      repo_forks_count = 0,
      repo_open_issues_count = 0,
      repo_topics = None,
      repo_fork = False,
      repo_private = False,
      repo_archived = False,
      repo_size = 10,
      repo_watchers_count = 1,
      repo_updated_at = ''2024-01-03T00:00:00Z'',
      repo_created_at = ''2024-01-01T00:00:00Z'',
      repo_pushed_at = ''2024-01-02T00:00:00Z'',
      repo_visibility = ''public'',
      repo_default_branch = ''main''\<rparr>"

definition example_octokit ::
  "(nat \<Rightarrow> api_repo list) \<Rightarrow> (string \<Rightarrow> exn + int list) \<Rightarrow> issue list \<Rightarrow> octokit" where
  "example_octokit pages activity listed =
     \<lparr>listForUser = (\<lambda>r. Inr (pages (page r))),
      getCommitActivityData = (\<lambda>owner repo. activity repo),
      listForRepo = (\<lambda>r. Inr listed),
      rejects = (\<lambda>c. None)\<rparr>"

definition three_pages :: "nat \<Rightarrow> api_repo list" where
  "three_pages p =
     (if p = 1 then [example_repo ''a'' (Some ''C''), example_repo ''b'' None]
      else if p = 2 then [example_repo ''c'' (Some ''Rust'')]
      else [])"

definition one_page :: "nat \<Rightarrow> api_repo list" where
  "one_page p = (if p = 1 then [example_repo ''a'' None] else [])"

section \<open>Notions for the properties\<close>

text \<open>The number a record's \<open>recent_activity\<close> holds (0 when it holds \<^verbatim>\<open>'N/A'\<close>).\<close>

definition activity_value :: "repo_stat \<Rightarrow> int" where
  "activity_value r = (case recent_activity r of Count n \<Rightarrow> n | NA \<Rightarrow> 0)"

section \<open>Properties\<close>

text \<open>
  Helper facts about one invocation on a persisted state whose index is a non-negative
  integer.
\<close>

lemma cycle_at_small:
  "0 \<le> n \<Longrightarrow> n < 3 \<Longrightarrow> cycle_at (Num n) = Some (ROTATION_CYCLE ! nat n)"
  by (simp add: ROTATION_CYCLE_def)

lemma js_rem_nonneg:
  "0 \<le> a \<Longrightarrow> js_rem (Num a) (Num 3) = Num (a mod 3)"
  by (simp add: sgn_if)

lemma rotate_persisted:
  assumes f: "state_file fs0 = Some (Json j)"
    and g: "get_currentIndex j = Inr (Some (JNum i))"
    and i: "0 \<le> i"
  shows "rotateFactCategory str2num now fs0 =
    Inr (\<lparr>currentIndex = Num ((i + 1) mod 3), lastUpdated = now,
           currentCategory = Some (ROTATION_CYCLE ! nat ((i + 1) mod 3))\<rparr>,
         fs0\<lparr>dir_exists := True,
             state_file := Some (Json (stringify
               \<lparr>currentIndex = Num ((i + 1) mod 3), lastUpdated = now,
                currentCategory = Some (ROTATION_CYCLE ! nat ((i + 1) mod 3))\<rparr>))\<rparr>)"
proof -
  have n: "next_index str2num (Json j) = Inr (Num ((i + 1) mod 3))"
    using g i by (simp add: next_index_def ROTATION_CYCLE_def sgn_if)
  have c: "cycle_at (Num ((i + 1) mod 3)) = Some (ROTATION_CYCLE ! nat ((i + 1) mod 3))"
    by (rule cycle_at_small) simp_all
  show ?thesis
    using f n c by (cases "dir_exists fs0") (simp_all add: rotateFactCategory_def Let_def)
qed

lemma stringify_index:
  "get_currentIndex (stringify \<lparr>currentIndex = Num n, lastUpdated = t, currentCategory = c\<rparr>)
     = Inr (Some (JNum n))"
  by (cases c) (simp_all add: stringify_def)


lemma invocations_persisted:
  assumes "state_file fs0 = Some (Json j)"
    and "get_currentIndex j = Inr (Some (JNum i))"
    and "0 \<le> i"
  shows "\<exists>sts. invocations str2num ts fs0 = Inr sts \<and> length sts = length ts \<and>
    (\<forall>k<length ts. currentIndex (sts ! k) = Num ((i + 1 + int k) mod 3) \<and>
       currentCategory (sts ! k) = Some (ROTATION_CYCLE ! nat ((i + 1 + int k) mod 3)))"
  using assms
proof (induction ts arbitrary: fs0 j i)
  case Nil
  then show ?case by simp
next
  case (Cons now ts)
  let ?i = "(i + 1) mod 3"
  let ?st = "\<lparr>currentIndex = Num ?i, lastUpdated = now,
              currentCategory = Some (ROTATION_CYCLE ! nat ?i)\<rparr>"
  let ?fs = "fs0\<lparr>dir_exists := True, state_file := Some (Json (stringify ?st))\<rparr>"
  have step: "rotateFactCategory str2num now fs0 = Inr (?st, ?fs)"
    using Cons.prems by (rule rotate_persisted)
  have "state_file ?fs = Some (Json (stringify ?st))" by simp
  moreover have "get_currentIndex (stringify ?st) = Inr (Some (JNum ?i))"
    by (rule stringify_index)
  moreover have "0 \<le> ?i" by simp
  ultimately obtain sts where sts: "invocations str2num ts ?fs = Inr sts"
    "length sts = length ts"
    "\<forall>k<length ts. currentIndex (sts ! k) = Num ((?i + 1 + int k) mod 3) \<and>
       currentCategory (sts ! k) = Some (ROTATION_CYCLE ! nat ((?i + 1 + int k) mod 3))"
    using Cons.IH by blast
  have shift: "(?i + 1 + int k) mod 3 = (i + 1 + int (Suc k)) mod 3" for k
    by presburger
  have "invocations str2num (now # ts) fs0 = Inr (?st # sts)"
    using step sts(1) by simp
  moreover have "length (?st # sts) = length (now # ts)"
    using sts(2) by simp
  moreover have "currentIndex ((?st # sts) ! k) = Num ((i + 1 + int k) mod 3) \<and>
       currentCategory ((?st # sts) ! k) = Some (ROTATION_CYCLE ! nat ((i + 1 + int k) mod 3))"
    if "k < length (now # ts)" for k
  proof (cases k)
    case 0
    then show ?thesis by simp
  next
    case (Suc m)
    then have "m < length ts" using that by simp
    then show ?thesis using sts(3) Suc shift [of m] by simp
  qed
  ultimately show ?case by blast
qed


text \<open>
  Claim C1. Let the state file hold a persisted state whose \<open>currentIndex\<close> is
  \<open>i\<close>, one of 0, 1, 2. One invocation of \<open>rotateFactCategory\<close> returns normally;
  the state it returns has \<open>currentIndex = (i + 1) mod 3\<close>,
  \<open>currentCategory = ROTATION_CYCLE[(i + 1) mod 3]\<close> and \<open>lastUpdated = now\<close>, and the
  file it writes back holds exactly these three members with these values. Over any
  number of consecutive invocations the \<open>k\<close>-th returned index (counting from 0) is
  \<open>(i + 1 + k) mod 3\<close>, so the indices go round 0, 1, 2, and the state returned three
  invocations later has the same index and category.
\<close>

theorem rotation_round_robin:
  assumes "state_file fs0 = Some (Json j)"
    and "get_currentIndex j = Inr (Some (JNum i))"
    and "i \<in> {0, 1, 2}"
  shows "rotateFactCategory str2num now fs0 =
           Inr (\<lparr>currentIndex = Num ((i + 1) mod 3), lastUpdated = now,
                  currentCategory = Some (ROTATION_CYCLE ! nat ((i + 1) mod 3))\<rparr>,
                fs0\<lparr>dir_exists := True,
                    state_file := Some (Json (JObj
                      [(''currentIndex'', JNum ((i + 1) mod 3)),
                       (''lastUpdated'', JStr now),
                       (''currentCategory'', JStr (ROTATION_CYCLE ! nat ((i + 1) mod 3)))]))\<rparr>) \<and>
         (\<exists>st fs1. rotateFactCategory str2num now fs0 = Inr (st, fs1) \<and>
            currentIndex st = Num ((i + 1) mod 3) \<and>
            currentCategory st = Some (ROTATION_CYCLE ! nat ((i + 1) mod 3)) \<and>
            state_file fs1 = Some (Json (stringify st)) \<and>
            get_currentIndex (stringify st) = Inr (Some (JNum ((i + 1) mod 3)))) \<and>
         (\<exists>sts. invocations str2num ts fs0 = Inr sts \<and> length sts = length ts \<and>
            (\<forall>k<length ts. currentIndex (sts ! k) = Num ((i + 1 + int k) mod 3) \<and>
               currentCategory (sts ! k) = Some (ROTATION_CYCLE ! nat ((i + 1 + int k) mod 3))) \<and>
            (\<forall>k. k + 3 < length ts \<longrightarrow>
               currentIndex (sts ! (k + 3)) = currentIndex (sts ! k) \<and>
               currentCategory (sts ! (k + 3)) = currentCategory (sts ! k)))"
proof -
  have i: "0 \<le> i" using assms(3) by auto
  have written: "rotateFactCategory str2num now fs0 =
           Inr (\<lparr>currentIndex = Num ((i + 1) mod 3), lastUpdated = now,
                  currentCategory = Some (ROTATION_CYCLE ! nat ((i + 1) mod 3))\<rparr>,
                fs0\<lparr>dir_exists := True,
                    state_file := Some (Json (JObj
                      [(''currentIndex'', JNum ((i + 1) mod 3)),
                       (''lastUpdated'', JStr now),
                       (''currentCategory'', JStr (ROTATION_CYCLE ! nat ((i + 1) mod 3)))]))\<rparr>)"
    using rotate_persisted [OF assms(1) assms(2) i, of str2num now]
    by (simp add: stringify_def)
  have one: "\<exists>st fs1. rotateFactCategory str2num now fs0 = Inr (st, fs1) \<and>
            currentIndex st = Num ((i + 1) mod 3) \<and>
            currentCategory st = Some (ROTATION_CYCLE ! nat ((i + 1) mod 3)) \<and>
            state_file fs1 = Some (Json (stringify st)) \<and>
            get_currentIndex (stringify st) = Inr (Some (JNum ((i + 1) mod 3)))"
    using rotate_persisted [OF assms(1) assms(2) i, of str2num now]
    by (simp add: stringify_index)
  obtain sts where sts: "invocations str2num ts fs0 = Inr sts" "length sts = length ts"
    and at: "\<forall>k<length ts. currentIndex (sts ! k) = Num ((i + 1 + int k) mod 3) \<and>
       currentCategory (sts ! k) = Some (ROTATION_CYCLE ! nat ((i + 1 + int k) mod 3))"
    using invocations_persisted [OF assms(1) assms(2) i] by blast
  have period: "(i + 1 + int (k + 3)) mod 3 = (i + 1 + int k) mod 3" for k
    by presburger
  have "currentIndex (sts ! (k + 3)) = currentIndex (sts ! k) \<and>
        currentCategory (sts ! (k + 3)) = currentCategory (sts ! k)"
    if "k + 3 < length ts" for k
  proof -
    have "k < length ts" using that by simp
    then show ?thesis using at that period [of k] by simp
  qed
  then have run: "\<exists>sts. invocations str2num ts fs0 = Inr sts \<and> length sts = length ts \<and>
            (\<forall>k<length ts. currentIndex (sts ! k) = Num ((i + 1 + int k) mod 3) \<and>
               currentCategory (sts ! k) = Some (ROTATION_CYCLE ! nat ((i + 1 + int k) mod 3))) \<and>
            (\<forall>k. k + 3 < length ts \<longrightarrow>
               currentIndex (sts ! (k + 3)) = currentIndex (sts ! k) \<and>
               currentCategory (sts ! (k + 3)) = currentCategory (sts ! k))"
    using sts at by blast
  from one run have "(\<exists>st fs1. rotateFactCategory str2num now fs0 = Inr (st, fs1) \<and>
            currentIndex st = Num ((i + 1) mod 3) \<and>
            currentCategory st = Some (ROTATION_CYCLE ! nat ((i + 1) mod 3)) \<and>
            state_file fs1 = Some (Json (stringify st)) \<and>
            get_currentIndex (stringify st) = Inr (Some (JNum ((i + 1) mod 3)))) \<and>
         (\<exists>sts. invocations str2num ts fs0 = Inr sts \<and> length sts = length ts \<and>
            (\<forall>k<length ts. currentIndex (sts ! k) = Num ((i + 1 + int k) mod 3) \<and>
               currentCategory (sts ! k) = Some (ROTATION_CYCLE ! nat ((i + 1 + int k) mod 3))) \<and>
            (\<forall>k. k + 3 < length ts \<longrightarrow>
               currentIndex (sts ! (k + 3)) = currentIndex (sts ! k) \<and>
               currentCategory (sts ! (k + 3)) = currentCategory (sts ! k)))"
    by (rule conjI)
  with written show ?thesis by (rule conjI)
qed

text \<open>
  Witness for C1: from a persisted index 2, one invocation returns index 0 with
  category LIFE and writes both to the file, and four invocations return the indices
  0, 1, 2, 0 and the categories LIFE, PEOPLE, TECH, LIFE.
\<close>

theorem rotation_round_robin_witness:
  "rotateFactCategory (\<lambda>s. NaN) ''d1''
     \<lparr>dir_exists = True, state_file = Some (Json (JObj
       [(''currentIndex'', JNum 2), (''lastUpdated'', JStr ''d0''),
        (''currentCategory'', JStr ''TECH'')]))\<rparr> =
     Inr (\<lparr>currentIndex = Num 0, lastUpdated = ''d1'', currentCategory = Some ''LIFE''\<rparr>,
          \<lparr>dir_exists = True, state_file = Some (Json (JObj
            [(''currentIndex'', JNum 0), (''lastUpdated'', JStr ''d1''),
             (''currentCategory'', JStr ''LIFE'')]))\<rparr>) \<and>
   (\<exists>sts. invocations (\<lambda>s. NaN) [''d1'', ''d2'', ''d3'', ''d4'']
     \<lparr>dir_exists = True, state_file = Some (Json (JObj
     [(''currentIndex'', JNum 2), (''lastUpdated'', JStr ''d0''),
      (''currentCategory'', JStr ''TECH'')]))\<rparr> = Inr sts \<and>
      map currentIndex sts = [Num 0, Num 1, Num 2, Num 0] \<and>
      map currentCategory sts = [Some ''LIFE'', Some ''PEOPLE'', Some ''TECH'', Some ''LIFE''])"
proof -
  have h1: "state_file
     \<lparr>dir_exists = True, state_file = Some (Json (JObj
     [(''currentIndex'', JNum 2), (''lastUpdated'', JStr ''d0''),
      (''currentCategory'', JStr ''TECH'')]))\<rparr> = Some (Json (JObj
     [(''currentIndex'', JNum 2), (''lastUpdated'', JStr ''d0''),
      (''currentCategory'', JStr ''TECH'')]))"
    by simp
  have h2: "get_currentIndex (JObj
     [(''currentIndex'', JNum 2), (''lastUpdated'', JStr ''d0''),
      (''currentCategory'', JStr ''TECH'')]) = Inr (Some (JNum 2))"
    by simp
  have h3: "(2::int) \<in> {0, 1, 2}" by simp
  note inst = rotation_round_robin [OF h1 h2 h3, of "\<lambda>s. NaN" "''d1''"
      "[''d1'', ''d2'', ''d3'', ''d4'']"]
  have c0: "ROTATION_CYCLE ! 0 = ''LIFE''"
    by (simp add: ROTATION_CYCLE_def)
  have first: "rotateFactCategory (\<lambda>s. NaN) ''d1''
     \<lparr>dir_exists = True, state_file = Some (Json (JObj
       [(''currentIndex'', JNum 2), (''lastUpdated'', JStr ''d0''),
        (''currentCategory'', JStr ''TECH'')]))\<rparr> =
     Inr (\<lparr>currentIndex = Num 0, lastUpdated = ''d1'', currentCategory = Some ''LIFE''\<rparr>,
          \<lparr>dir_exists = True, state_file = Some (Json (JObj
            [(''currentIndex'', JNum 0), (''lastUpdated'', JStr ''d1''),
             (''currentCategory'', JStr ''LIFE'')]))\<rparr>)"
    using inst [THEN conjunct1] by (simp add: c0)
  from inst [THEN conjunct2, THEN conjunct2]
  obtain sts where sts: "invocations (\<lambda>s. NaN) [''d1'', ''d2'', ''d3'', ''d4'']
     \<lparr>dir_exists = True, state_file = Some (Json (JObj
     [(''currentIndex'', JNum 2), (''lastUpdated'', JStr ''d0''),
      (''currentCategory'', JStr ''TECH'')]))\<rparr> = Inr sts"
    "length sts = length [''d1'', ''d2'', ''d3'', ''d4'']"
    and at: "\<forall>k<length [''d1'', ''d2'', ''d3'', ''d4''].
       currentIndex (sts ! k) = Num ((2 + 1 + int k) mod 3) \<and>
       currentCategory (sts ! k) = Some (ROTATION_CYCLE ! nat ((2 + 1 + int k) mod 3))"
    by blast
  have "length sts = 4" using sts(2) by simp
  then obtain a b c d where abcd: "sts = [a, b, c, d]"
    by (auto simp: length_Suc_conv eval_nat_numeral)
  have "currentIndex a = Num 0 \<and> currentCategory a = Some ''LIFE''"
    using at [rule_format, of 0] abcd by (simp add: ROTATION_CYCLE_def)
  moreover have "currentIndex b = Num 1 \<and> currentCategory b = Some ''PEOPLE''"
    using at [rule_format, of 1] abcd by (simp add: ROTATION_CYCLE_def)
  moreover have "currentIndex c = Num 2 \<and> currentCategory c = Some ''TECH''"
    using at [rule_format, of 2] abcd by (simp add: ROTATION_CYCLE_def)
  moreover have "currentIndex d = Num 0 \<and> currentCategory d = Some ''LIFE''"
    using at [rule_format, of 3] abcd by (simp add: ROTATION_CYCLE_def)
  ultimately have maps: "map currentIndex sts = [Num 0, Num 1, Num 2, Num 0] \<and>
      map currentCategory sts = [Some ''LIFE'', Some ''PEOPLE'', Some ''TECH'', Some ''LIFE'']"
    using abcd by simp
  have "\<exists>sts. invocations (\<lambda>s. NaN) [''d1'', ''d2'', ''d3'', ''d4'']
     \<lparr>dir_exists = True, state_file = Some (Json (JObj
     [(''currentIndex'', JNum 2), (''lastUpdated'', JStr ''d0''),
      (''currentCategory'', JStr ''TECH'')]))\<rparr> = Inr sts \<and>
      map currentIndex sts = [Num 0, Num 1, Num 2, Num 0] \<and>
      map currentCategory sts = [Some ''LIFE'', Some ''PEOPLE'', Some ''TECH'', Some ''LIFE'']"
  proof (intro exI conjI)
    show "invocations (\<lambda>s. NaN) [''d1'', ''d2'', ''d3'', ''d4'']
     \<lparr>dir_exists = True, state_file = Some (Json (JObj
     [(''currentIndex'', JNum 2), (''lastUpdated'', JStr ''d0''),
      (''currentCategory'', JStr ''TECH'')]))\<rparr> = Inr sts"
      by (rule sts(1))
    show "map currentIndex sts = [Num 0, Num 1, Num 2, Num 0]"
      using maps by (rule conjunct1)
    show "map currentCategory sts =
        [Some ''LIFE'', Some ''PEOPLE'', Some ''TECH'', Some ''LIFE'']"
      using maps by (rule conjunct2)
  qed
  with first show ?thesis by (rule conjI)
qed

text \<open>
  A missing state file, one whose read or parse throws, and one that holds \<^verbatim>\<open>null\<close>
  (where the property read throws) leave the index at its initial 0: the exception is
  caught, the function returns normally with category LIFE and writes that state.
\<close>

lemma rotate_missing_or_unparsable:
  assumes "state_file fs0 = None \<or> state_file fs0 = Some Garbled \<or>
           state_file fs0 = Some (Json JNull)"
  shows "rotateFactCategory str2num now fs0 =
           Inr (\<lparr>currentIndex = Num 0, lastUpdated = now, currentCategory = Some ''LIFE''\<rparr>,
                fs0\<lparr>dir_exists := True,
                    state_file := Some (Json (JObj
                      [(''currentIndex'', JNum 0), (''lastUpdated'', JStr now),
                       (''currentCategory'', JStr ''LIFE'')]))\<rparr>)"
  using assms
  by (cases "dir_exists fs0")
    (auto simp: rotateFactCategory_def Let_def next_index_def ROTATION_CYCLE_def stringify_def)

text \<open>
  Claim C3 fails on the code for a state file that is corrupt but still parses. The
  \<^verbatim>\<open>try\<close> block catches only what throws; a file that has lost its
  \<open>currentIndex\<close> member (here \<^verbatim>\<open>{"lastUpdated": "d0"}\<close>), the file \<^verbatim>\<open>[]\<close> and
  the file \<^verbatim>\<open>7\<close> are read without an exception, the member read gives
  \<open>undefined\<close>, and one invocation returns \<open>currentIndex = NaN\<close> with no category,
  not 0, and writes \<^verbatim>\<open>"currentIndex": null\<close>.
\<close>

theorem rotation_corrupt_but_parseable:
  "rotateFactCategory str2num now
       \<lparr>dir_exists = True, state_file = Some (Json (JObj [(''lastUpdated'', JStr ''d0'')]))\<rparr> =
     Inr (\<lparr>currentIndex = NaN, lastUpdated = now, currentCategory = None\<rparr>,
          \<lparr>dir_exists = True, state_file = Some (Json (JObj
             [(''currentIndex'', JNull), (''lastUpdated'', JStr now)]))\<rparr>) \<and>
   rotateFactCategory str2num now \<lparr>dir_exists = True, state_file = Some (Json (JArr []))\<rparr> =
     Inr (\<lparr>currentIndex = NaN, lastUpdated = now, currentCategory = None\<rparr>,
          \<lparr>dir_exists = True, state_file = Some (Json (JObj
             [(''currentIndex'', JNull), (''lastUpdated'', JStr now)]))\<rparr>) \<and>
   rotateFactCategory str2num now \<lparr>dir_exists = True, state_file = Some (Json (JNum 7))\<rparr> =
     Inr (\<lparr>currentIndex = NaN, lastUpdated = now, currentCategory = None\<rparr>,
          \<lparr>dir_exists = True, state_file = Some (Json (JObj
             [(''currentIndex'', JNull), (''lastUpdated'', JStr now)]))\<rparr>)"
  by (simp add: rotateFactCategory_def Let_def next_index_def ROTATION_CYCLE_def stringify_def)

text \<open>
  Claim C2 fails on the code. A state file that parses but holds no number under
  \<open>currentIndex\<close> is not caught by the \<^verbatim>\<open>try\<close> block: on the file \<^verbatim>\<open>{}\<close> the
  read gives \<open>undefined\<close>, \<^verbatim>\<open>(undefined + 1) % 3\<close> is not-a-number, and the state
  returned has \<open>currentIndex = NaN\<close> and no category (written back as
  \<^verbatim>\<open>"currentIndex": null\<close>). On \<^verbatim>\<open>{"currentIndex": -2}\<close> the remainder keeps the
  dividend's sign: the index returned is \<open>-1\<close>, again with no category.
\<close>

theorem rotation_invalid_index:
  "rotateFactCategory str2num now \<lparr>dir_exists = True, state_file = Some (Json (JObj []))\<rparr> =
     Inr (\<lparr>currentIndex = NaN, lastUpdated = now, currentCategory = None\<rparr>,
          \<lparr>dir_exists = True, state_file = Some (Json (JObj
             [(''currentIndex'', JNull), (''lastUpdated'', JStr now)]))\<rparr>) \<and>
   rotateFactCategory str2num now
       \<lparr>dir_exists = True, state_file = Some (Json (JObj [(''currentIndex'', JNum (- 2))]))\<rparr> =
     Inr (\<lparr>currentIndex = Num (- 1), lastUpdated = now, currentCategory = None\<rparr>,
          \<lparr>dir_exists = True, state_file = Some (Json (JObj
             [(''currentIndex'', JNum (- 1)), (''lastUpdated'', JStr now)]))\<rparr>)"
  by (simp add: rotateFactCategory_def Let_def next_index_def ROTATION_CYCLE_def stringify_def)


lemma collect_pages_result_aux:
  "p + n = k \<Longrightarrow> listForUser oct (page_request owner k) = Inr [] \<Longrightarrow>
   (\<forall>q. p \<le> q \<and> q < k \<longrightarrow> (\<exists>d. listForUser oct (page_request owner q) = Inr d \<and> d \<noteq> [])) \<Longrightarrow>
     collect_pages oct owner p repos =
       Some (Inr (repos @ concat (map (page_data oct owner) [p..<k])))"
proof (induction n arbitrary: p repos)
  case 0
  then show ?case by (subst collect_pages.simps) simp
next
  case (Suc n)
  have "p \<le> p \<and> p < k" using Suc.prems(1) by simp
  with Suc.prems(3) obtain d where d: "listForUser oct (page_request owner p) = Inr d" "d \<noteq> []"
    by blast
  have "collect_pages oct owner (p + 1) (repos @ d) =
       Some (Inr ((repos @ d) @ concat (map (page_data oct owner) [p + 1..<k])))"
    using Suc.prems by (intro Suc.IH) simp_all
  moreover have "[p..<k] = p # [p + 1..<k]"
    using Suc.prems(1) by (simp add: upt_conv_Cons)
  moreover have "page_data oct owner p = d"
    using d by (simp add: page_data_def)
  ultimately show ?case
    using d by (subst collect_pages.simps) simp
qed




text \<open>
  The loop over the stale issues when the platform carries out every call: a comment
  and then the closing update for each issue, in order.
\<close>

lemma close_loop_accepts:
  assumes "\<forall>c. rejects oct c = None"
  shows "close_loop oct owner repo d stale calls pushed =
    (calls @ concat (map (\<lambda>i. [CreateComment owner repo (number i) (closing_comment d),
                                UpdateIssue owner repo (number i) ''closed'' ''not_planned'']) stale),
     Inr (pushed @ map (\<lambda>i. (number i, title i)) stale))"
  using assms by (induction stale arbitrary: calls pushed) simp_all

text \<open>
  Claim C6. With the default threshold of 30 days, when the listing of open issues
  (at most 100 asked for) returns \<open>data\<close> and the platform carries out every call,
  \<open>closeStaleIssues\<close> makes calls for exactly the issues of \<open>data\<close> that are not pull
  requests and were last updated before \<open>now\<close> minus 30 days: for each, in order, the
  comment and then the update to closed with reason \<open>not_planned\<close>. No call names
  another issue, and the result counts and lists exactly those issues.
\<close>

theorem stale_issues_closed:
  assumes "listForRepo oct \<lparr>issues_owner = owner, issues_repo = repo, issues_state = ''open'',
                            issues_labels = None, issues_per_page = 100\<rparr> = Inr data"
    and "\<forall>c. rejects oct c = None"
  shows "closeStaleIssues oct owner repo None now =
    (concat (map (\<lambda>i. [CreateComment owner repo (number i) (closing_comment 30),
                        UpdateIssue owner repo (number i) ''closed'' ''not_planned''])
       (filter (\<lambda>i. updated_at i < now - 30 * 86400000 \<and> \<not> pull_request i) data)),
     Inr \<lparr>stale_repo = repo,
          stale_count = length (filter (\<lambda>i. updated_at i < now - 30 * 86400000 \<and> \<not> pull_request i) data),
          closed_count = length (filter (\<lambda>i. updated_at i < now - 30 * 86400000 \<and> \<not> pull_request i) data),
          closed = map (\<lambda>i. (number i, title i))
            (filter (\<lambda>i. updated_at i < now - 30 * 86400000 \<and> \<not> pull_request i) data)\<rparr>)"
proof -
  have "is_stale (cutoffDate now 30) = (\<lambda>i. updated_at i < now - 30 * 86400000 \<and> \<not> pull_request i)"
    by (simp add: is_stale_def cutoffDate_def ms_per_day_def fun_eq_iff)
  then show ?thesis
    using assms(1) close_loop_accepts [OF assms(2)]
    by (simp add: closeStaleIssues_def Let_def)
qed

text \<open>
  Witness for C6: issues 1, 2, 3 last updated 5, 31 and 45 days before \<open>now\<close>. Issues
  2 and 3 are commented and closed; no call names issue 1.
\<close>

theorem stale_issues_closed_witness:
  "closeStaleIssues
     (example_octokit three_pages (\<lambda>r. Inr [])
        [\<lparr>number = 1, title = ''five'', body = None,
          updated_at = 100 * 86400000 - 5 * 86400000, pull_request = False\<rparr>,
         \<lparr>number = 2, title = ''thirty-one'', body = None,
          updated_at = 100 * 86400000 - 31 * 86400000, pull_request = False\<rparr>,
         \<lparr>number = 3, title = ''forty-five'', body = None,
          updated_at = 100 * 86400000 - 45 * 86400000, pull_request = False\<rparr>])
     ''owner'' ''repo'' None (100 * 86400000) =
   ([CreateComment ''owner'' ''repo'' 2 (closing_comment 30),
     UpdateIssue ''owner'' ''repo'' 2 ''closed'' ''not_planned'',
     CreateComment ''owner'' ''repo'' 3 (closing_comment 30),
     UpdateIssue ''owner'' ''repo'' 3 ''closed'' ''not_planned''],
    Inr \<lparr>stale_repo = ''repo'', stale_count = 2, closed_count = 2,
         closed = [(2, ''thirty-one''), (3, ''forty-five'')]\<rparr>)"
proof -
  let ?data = "[\<lparr>number = 1, title = ''five'', body = None,
          updated_at = 100 * 86400000 - 5 * 86400000, pull_request = False\<rparr>,
         \<lparr>number = 2, title = ''thirty-one'', body = None,
          updated_at = 100 * 86400000 - 31 * 86400000, pull_request = False\<rparr>,
         \<lparr>number = 3, title = ''forty-five'', body = None,
          updated_at = 100 * 86400000 - 45 * 86400000, pull_request = False\<rparr>]"
  let ?oct = "example_octokit three_pages (\<lambda>r. Inr []) ?data"
  have l: "listForRepo ?oct \<lparr>issues_owner = ''owner'', issues_repo = ''repo'',
             issues_state = ''open'', issues_labels = None, issues_per_page = 100\<rparr> = Inr ?data"
    by (simp add: example_octokit_def)
  have r: "\<forall>c. rejects ?oct c = None"
    by (simp add: example_octokit_def)
  show ?thesis
    using stale_issues_closed [OF l r, of "100 * 86400000"] by simp
qed

text \<open>
  The labelling loop when the platform carries out every call, the labels an issue
  receives, the two titles of the claim, and the text that is matched: a match in the
  title or in the body is a match in the text.
\<close>

lemma label_loop_accepts:
  assumes "\<forall>c. rejects oct c = None"
  shows "label_loop oct owner repo data calls n =
    (calls @ map (\<lambda>i. AddLabels owner repo (number i) (matchedLabels (issue_text i)))
               (filter (\<lambda>i. matchedLabels (issue_text i) \<noteq> []) data),
     Inr (n + length (filter (\<lambda>i. matchedLabels (issue_text i) \<noteq> []) data)))"
  using assms by (induction data arbitrary: calls n) simp_all

lemma matchedLabels_iff:
  "l \<in> set (matchedLabels s) \<longleftrightarrow> (\<exists>ws. (l, ws) \<in> set labelRules \<and> regex_test ws s)"
  by (force simp: matchedLabels_def)

lemma regex_test_append:
  assumes "regex_test ws s"
  shows "regex_test ws (s @ t)"
proof -
  from assms obtain w where w: "w \<in> set ws" "sublist w (map lower_ascii s)"
    by (auto simp: regex_test_def list_ex_iff)
  have "sublist (map lower_ascii s) (map lower_ascii (s @ t))"
    by simp
  with w(2) have "sublist w (map lower_ascii (s @ t))"
    by (rule sublist_order.order_trans)
  with w(1) show ?thesis
    by (auto simp: regex_test_def list_ex_iff)
qed

lemma crash_title: "regex_test [''bug'', ''error'', ''crash'', ''fail''] ''App crashes on startup''"
  by (simp add: regex_test_def lower_ascii_def sublist_code)

lemma how_title: "regex_test [''how'', ''why'', ''what'', ''help'', ''support''] ''How do I configure this?''"
  by (simp add: regex_test_def lower_ascii_def sublist_code)

lemma bug_rule: "(''bug'', [''bug'', ''error'', ''crash'', ''fail'']) \<in> set labelRules"
  by (simp add: labelRules_def)

lemma question_rule: "(''question'', [''how'', ''why'', ''what'', ''help'', ''support'']) \<in> set labelRules"
  by (simp add: labelRules_def)

lemma regex_test_prepend:
  assumes "regex_test ws s"
  shows "regex_test ws (t @ s)"
proof -
  from assms obtain w where w: "w \<in> set ws" "sublist w (map lower_ascii s)"
    by (auto simp: regex_test_def list_ex_iff)
  have "sublist (map lower_ascii s) (map lower_ascii (t @ s))"
    by simp
  with w(2) have "sublist w (map lower_ascii (t @ s))"
    by (rule sublist_order.order_trans)
  with w(1) show ?thesis
    by (auto simp: regex_test_def list_ex_iff)
qed

lemma issue_text_explicit:
  "issue_text i = title i @ '' '' @ (case body i of None \<Rightarrow> [] | Some b \<Rightarrow> b)"
  by (simp add: issue_text_def or_string_def split: option.splits)

text \<open>
  Claim C7. When the listing of open issues returns \<open>data\<close> and the platform carries
  out every call, \<open>autoLabelIssues\<close> makes one \<open>addLabels\<close> call for each issue with
  at least one matching rule, and the labels of the call are \<open>matchedLabels\<close> of the
  title, a space and the body (nothing for a missing body). \<open>matchedLabels\<close> holds
  every label whose expression matches, not only the first. A rule that matches the
  title alone applies its label, and so does a rule that matches the body alone: an
  issue titled \<^verbatim>\<open>App crashes on startup\<close> receives \<open>bug\<close>, one titled
  \<^verbatim>\<open>How do I configure this?\<close> receives \<open>question\<close> (whatever the body), and a text
  that matches both expressions receives both labels.
\<close>

theorem all_matching_labels_applied:
  assumes "listForRepo oct \<lparr>issues_owner = owner, issues_repo = repo, issues_state = ''open'',
                            issues_labels = Some '''', issues_per_page = 50\<rparr> = Inr data"
    and "\<forall>c. rejects oct c = None"
  shows "autoLabelIssues oct owner repo =
      (map (\<lambda>i. AddLabels owner repo (number i)
                  (matchedLabels (title i @ '' '' @ (case body i of None \<Rightarrow> [] | Some b \<Rightarrow> b))))
         (filter (\<lambda>i. matchedLabels
                         (title i @ '' '' @ (case body i of None \<Rightarrow> [] | Some b \<Rightarrow> b)) \<noteq> [])
            data),
       Inr \<lparr>label_repo = repo, processed = length data,
            labeled = length
              (filter (\<lambda>i. matchedLabels
                              (title i @ '' '' @ (case body i of None \<Rightarrow> [] | Some b \<Rightarrow> b)) \<noteq> [])
                 data)\<rparr>) \<and>
    (\<forall>s l. l \<in> set (matchedLabels s) \<longleftrightarrow> (\<exists>ws. (l, ws) \<in> set labelRules \<and> regex_test ws s)) \<and>
    (\<forall>i. issue_text i = title i @ '' '' @ (case body i of None \<Rightarrow> [] | Some b \<Rightarrow> b)) \<and>
    (\<forall>i l ws. (l, ws) \<in> set labelRules \<and> regex_test ws (title i) \<longrightarrow>
       l \<in> set (matchedLabels (issue_text i))) \<and>
    (\<forall>i b l ws. body i = Some b \<and> (l, ws) \<in> set labelRules \<and> regex_test ws b \<longrightarrow>
       l \<in> set (matchedLabels (issue_text i))) \<and>
    (\<forall>i. title i = ''App crashes on startup'' \<longrightarrow> ''bug'' \<in> set (matchedLabels (issue_text i))) \<and>
    (\<forall>i. title i = ''How do I configure this?'' \<longrightarrow>
       ''question'' \<in> set (matchedLabels (issue_text i))) \<and>
    (\<forall>s. regex_test [''bug'', ''error'', ''crash'', ''fail''] s \<and>
         regex_test [''how'', ''why'', ''what'', ''help'', ''support''] s \<longrightarrow>
         ''bug'' \<in> set (matchedLabels s) \<and> ''question'' \<in> set (matchedLabels s))"
proof -
  have run: "autoLabelIssues oct owner repo =
      (map (\<lambda>i. AddLabels owner repo (number i)
                  (matchedLabels (title i @ '' '' @ (case body i of None \<Rightarrow> [] | Some b \<Rightarrow> b))))
         (filter (\<lambda>i. matchedLabels
                         (title i @ '' '' @ (case body i of None \<Rightarrow> [] | Some b \<Rightarrow> b)) \<noteq> [])
            data),
       Inr \<lparr>label_repo = repo, processed = length data,
            labeled = length
              (filter (\<lambda>i. matchedLabels
                              (title i @ '' '' @ (case body i of None \<Rightarrow> [] | Some b \<Rightarrow> b)) \<noteq> [])
                 data)\<rparr>)"
    using assms(1) label_loop_accepts [OF assms(2)]
    by (simp add: autoLabelIssues_def issue_text_explicit)
  have in_title: "l \<in> set (matchedLabels (issue_text i))"
    if "(l, ws) \<in> set labelRules \<and> regex_test ws (title i)" for i l ws
  proof -
    have "regex_test ws (issue_text i)"
      unfolding issue_text_def using that by (intro regex_test_append) simp
    then show ?thesis using that matchedLabels_iff by blast
  qed
  have in_body: "l \<in> set (matchedLabels (issue_text i))"
    if "body i = Some b \<and> (l, ws) \<in> set labelRules \<and> regex_test ws b" for i b l ws
  proof -
    have "issue_text i = (title i @ '' '') @ b"
      using that by (simp add: issue_text_explicit)
    moreover have "regex_test ws ((title i @ '' '') @ b)"
      using that by (intro regex_test_prepend) simp
    ultimately have "regex_test ws (issue_text i)" by simp
    then show ?thesis using that matchedLabels_iff by blast
  qed
  have bug: "''bug'' \<in> set (matchedLabels (issue_text i))"
    if "title i = ''App crashes on startup''" for i
    using in_title [of "''bug''" "[''bug'', ''error'', ''crash'', ''fail'']" i]
      bug_rule crash_title that by simp
  have question: "''question'' \<in> set (matchedLabels (issue_text i))"
    if "title i = ''How do I configure this?''" for i
    using in_title [of "''question''" "[''how'', ''why'', ''what'', ''help'', ''support'']" i]
      question_rule how_title that by simp
  have both: "''bug'' \<in> set (matchedLabels s) \<and> ''question'' \<in> set (matchedLabels s)"
    if "regex_test [''bug'', ''error'', ''crash'', ''fail''] s \<and>
        regex_test [''how'', ''why'', ''what'', ''help'', ''support''] s" for s
    using that bug_rule question_rule matchedLabels_iff by blast
  show ?thesis
    using run bug question both matchedLabels_iff issue_text_explicit in_title in_body
    by (intro conjI allI impI) blast+
qed

text \<open>
  Witness for C7: five issues. The first receives exactly \<open>bug\<close>; the second
  \<open>question\<close> from its title and \<open>documentation\<close> from its body; the third \<open>bug\<close>
  and \<open>question\<close>, both from its body; the fourth matches nothing and gets no call; the
  fifth \<open>question\<close> from its body alone.
\<close>

theorem all_matching_labels_applied_witness:
  "autoLabelIssues
     (example_octokit three_pages (\<lambda>r. Inr [])
        [\<lparr>number = 1, title = ''App crashes on startup'', body = None,
          updated_at = 0, pull_request = False\<rparr>,
         \<lparr>number = 2, title = ''How do I configure this?'', body = Some ''See the README.'',
          updated_at = 0, pull_request = False\<rparr>,
         \<lparr>number = 3, title = ''Export'', body = Some ''Why does the export fail?'',
          updated_at = 0, pull_request = False\<rparr>,
         \<lparr>number = 4, title = ''Thanks'', body = Some '''',
          updated_at = 0, pull_request = False\<rparr>,
         \<lparr>number = 5, title = ''Startup is broken'', body = Some ''What can I do?'',
          updated_at = 0, pull_request = False\<rparr>])
     ''owner'' ''repo'' =
   ([AddLabels ''owner'' ''repo'' 1 [''bug''],
     AddLabels ''owner'' ''repo'' 2 [''documentation'', ''question''],
     AddLabels ''owner'' ''repo'' 3 [''bug'', ''question''],
     AddLabels ''owner'' ''repo'' 5 [''question'']],
    Inr \<lparr>label_repo = ''repo'', processed = 5, labeled = 4\<rparr>)"
proof -
  let ?i1 = "\<lparr>number = 1, title = ''App crashes on startup'', body = None,
          updated_at = 0, pull_request = False\<rparr>"
  let ?i2 = "\<lparr>number = 2, title = ''How do I configure this?'', body = Some ''See the README.'',
          updated_at = 0, pull_request = False\<rparr>"
  let ?i3 = "\<lparr>number = 3, title = ''Export'', body = Some ''Why does the export fail?'',
          updated_at = 0, pull_request = False\<rparr>"
  let ?i4 = "\<lparr>number = 4, title = ''Thanks'', body = Some '''',
          updated_at = 0, pull_request = False\<rparr>"
  let ?i5 = "\<lparr>number = 5, title = ''Startup is broken'', body = Some ''What can I do?'',
          updated_at = 0, pull_request = False\<rparr>"
  let ?oct = "example_octokit three_pages (\<lambda>r. Inr []) [?i1, ?i2, ?i3, ?i4, ?i5]"
  have l: "listForRepo ?oct \<lparr>issues_owner = ''owner'', issues_repo = ''repo'',
             issues_state = ''open'', issues_labels = Some '''', issues_per_page = 50\<rparr>
           = Inr [?i1, ?i2, ?i3, ?i4, ?i5]"
    by (simp add: example_octokit_def)
  have r: "\<forall>c. rejects ?oct c = None"
    by (simp add: example_octokit_def)
  have m1: "matchedLabels (''App crashes on startup'' @ '' '' @ []) = [''bug'']"
    by (simp add: matchedLabels_def labelRules_def regex_test_def lower_ascii_def sublist_code)
  have m2: "matchedLabels (''How do I configure this?'' @ '' '' @ ''See the README.'') =
      [''documentation'', ''question'']"
    by (simp add: matchedLabels_def labelRules_def regex_test_def lower_ascii_def sublist_code)
  have m3: "matchedLabels (''Export'' @ '' '' @ ''Why does the export fail?'') =
      [''bug'', ''question'']"
    by (simp add: matchedLabels_def labelRules_def regex_test_def lower_ascii_def sublist_code)
  have m4: "matchedLabels (''Thanks'' @ '' '' @ []) = []"
    by (simp add: matchedLabels_def labelRules_def regex_test_def lower_ascii_def sublist_code)
  have m5: "matchedLabels (''Startup is broken'' @ '' '' @ ''What can I do?'') = [''question'']"
    by (simp add: matchedLabels_def labelRules_def regex_test_def lower_ascii_def sublist_code)
  show ?thesis
    using all_matching_labels_applied [OF l r, THEN conjunct1] m1 m2 m3 m4 m5
    by simp
qed

text \<open>
  The third rule looks at the keys of the array of checks (index strings), which have
  no status: its condition is false for every input. The four messages are different
  strings, so the list of recommendations can be read off rule by rule.
\<close>

lemma no_key_failed: "\<not> list_ex (\<lambda>c. status_of_key c = Some ''failed'') ks"
  by (simp add: status_of_key_def list_ex_iff)

lemma messages_distinct:
  "critical_message \<noteq> high_message" "critical_message \<noteq> archive_message"
  "high_message \<noteq> archive_message" "critical_message \<noteq> medium_message"
  "high_message \<noteq> medium_message" "archive_message \<noteq> medium_message"
  by (simp_all add: critical_message_def high_message_def archive_message_def medium_message_def
      emoji_red_def emoji_orange_def emoji_package_def emoji_yellow_def)

lemma recommendations_eq:
  "recommendations (generateHealthReport now lintResults vulnResults statsData) =
     (if critical (summary vulnResults) > 0 then [critical_message] else []) @
     (if high (summary vulnResults) > 0 then [high_message] else []) @
     (if int (total_repos statsData) - int (active_repos statsData) > 5
      then [archive_message] else [])"
  by (simp add: generateHealthReport_def Let_def push_if_def no_key_failed)

text \<open>
  Claim C8, amended. The recommendations other than the linting message are built by
  three rules evaluated independently and in this order: \<open>critical > 0\<close>,
  \<open>high > 0\<close>, and \<open>total_repos - active_repos > 5\<close> (the number of archived
  repositories, a difference and not a ratio); each appends its message at most
  once, and the linting message occurs at most once. A vulnerability summary with
  \<open>critical = 1\<close> and \<open>high = 0\<close> yields the critical message and not the high one.
\<close>

theorem recommendation_rules:
  "filter (\<lambda>m. m \<noteq> medium_message)
      (recommendations (generateHealthReport now lintResults vulnResults statsData)) =
     (if critical (summary vulnResults) > 0 then [critical_message] else []) @
     (if high (summary vulnResults) > 0 then [high_message] else []) @
     (if int (total_repos statsData) - int (active_repos statsData) > 5
      then [archive_message] else []) \<and>
   count_list (recommendations (generateHealthReport now lintResults vulnResults statsData))
      medium_message \<le> 1 \<and>
   (critical_message \<in> set (recommendations
       (generateHealthReport now lintResults
          (vulnResults\<lparr>summary := (summary vulnResults)\<lparr>critical := 1, high := 0\<rparr>\<rparr>) statsData)) \<and>
    high_message \<notin> set (recommendations
       (generateHealthReport now lintResults
          (vulnResults\<lparr>summary := (summary vulnResults)\<lparr>critical := 1, high := 0\<rparr>\<rparr>) statsData)))"
  using messages_distinct by (simp add: recommendations_eq)

text \<open>
  Claim C8 as stated fails: with 12 repositories of which 6 are active, the ratio of
  archived to active repositories is 1, not above 5, and yet the archiving message is
  appended, because 12 - 6 exceeds 5.
\<close>

theorem archive_rule_is_a_difference:
  "archive_message \<in> set (recommendations (generateHealthReport ''t''
      \<lparr>lint_timestamp = ''t'', checks = [],
        lint_summary = \<lparr>total = 0, passed = 0, failed = 0, warnings = 0\<rparr>\<rparr>
      \<lparr>vuln_timestamp = ''t'', npm_audit = None, python_safety = None,
        summary = \<lparr>critical = 0, high = 0, moderate = 0, low = 0\<rparr>\<rparr>
      \<lparr>timestamp = ''t'', total_repos = 12, active_repos = 6, total_stars = 0, total_forks = 0,
        by_language = [], most_active = [], repositories = []\<rparr>)) \<and>
   \<not> ((12 - 6) / 6 > (5::real))"
  by (simp add: recommendations_eq)


text \<open>
  The linting message is never appended, whatever the checks hold.
\<close>

lemma failed_scanner_rule_never_fires:
  "medium_message \<notin> set (recommendations (generateHealthReport now lintResults vulnResults statsData))"
  using messages_distinct by (simp add: recommendations_eq)

text \<open>
  The sort permutes the array: it keeps the records and how often each occurs.
\<close>

lemma mset_move_left: "mset (move_left c x ys) = add_mset x (mset ys)"
  by (induction ys) simp_all

lemma mset_insertions:
  "mset (foldl (\<lambda>acc x. move_left c x acc) acc xs) = mset acc + mset xs"
  by (induction xs arbitrary: acc) (simp_all add: mset_move_left)

lemma mset_sort_with: "mset (sort_with c xs) = mset xs"
  by (simp add: sort_with_def mset_insertions)

lemma length_sort_with: "length (sort_with c xs) = length xs"
  using mset_sort_with [of c xs] by (metis size_mset)

lemma set_sort_with: "set (sort_with c xs) = set xs"
  using mset_sort_with [of c xs] by (metis set_mset_mset)

lemma length_filter_sort_with: "length (filter P (sort_with c xs)) = length (filter P xs)"
proof -
  have "mset (filter P (sort_with c xs)) = mset (filter P xs)"
    by (simp add: mset_sort_with)
  then show ?thesis by (metis size_mset)
qed

text \<open>
  The tally by language: each repository with a non-empty language adds one to the
  count of its language.
\<close>

lemma sum_bump: "sum_list (map snd (bump m l)) = sum_list (map snd m) + 1"
proof -
  have "sum_list (map snd (AList.update l (v + 1) m)) = sum_list (map snd m) + 1"
    if "v = (case map_of m l of None \<Rightarrow> 0 | Some n \<Rightarrow> n)" for v
    using that by (induction m) auto
  from this [of "case map_of m l of None \<Rightarrow> 0 | Some n \<Rightarrow> n"]
  show ?thesis by (cases "map_of m l") (simp_all add: bump_def)
qed

lemma map_of_bump:
  "map_of (bump m l) = (map_of m)(l \<mapsto> (case map_of m l of None \<Rightarrow> 0 | Some n \<Rightarrow> n) + 1)"
  by (simp add: bump_def update_conv' option.case_eq_if)

lemma sum_count_languages:
  "sum_list (map snd (count_languages rs m)) =
     sum_list (map snd m) + int (length (filter (\<lambda>r. language r \<noteq> []) rs))"
  by (induction rs arbitrary: m) (simp_all add: sum_bump)

lemma map_of_count_languages:
  "map_of (count_languages rs m) l =
     (if l \<noteq> [] \<and> l \<in> language ` set rs
      then Some ((case map_of m l of None \<Rightarrow> 0 | Some n \<Rightarrow> n) +
                 int (length (filter (\<lambda>r. language r = l) rs)))
      else map_of m l)"
proof (induction rs arbitrary: m)
  case Nil
  then show ?case by simp
next
  case (Cons r rs)
  show ?case
  proof (cases "language r = []")
    case True
    then show ?thesis using Cons.IH [of m] by auto
  next
    case False
    show ?thesis
    proof (cases "language r = l")
      case True
      with False show ?thesis
        using Cons.IH [of "bump m (language r)"]
        by (auto simp: map_of_bump image_iff filter_empty_conv split: option.splits)
    next
      case neq: False
      with False show ?thesis
        using Cons.IH [of "bump m (language r)"]
        by (auto simp: map_of_bump)
    qed
  qed
qed

lemma or_string_nonempty: "d \<noteq> [] \<Longrightarrow> or_string v d \<noteq> []"
  by (simp add: or_string_def split: option.splits)

lemma language_enrich: "language (enrich oct owner (to_stat repo)) = or_string (repo_language repo) ''Unknown''"
  by (simp add: enrich_def to_stat_def split: sum.splits)


text \<open>
  The two fields of the summary that the claims on the tally are about.
\<close>

lemma by_language_saved:
  "by_language (fst (saveRepositoryStats now stats)) =
     count_languages (sort_with compare_activity stats) []"
  by (simp add: saveRepositoryStats_def Let_def)

lemma total_repos_saved: "total_repos (fst (saveRepositoryStats now stats)) = length stats"
  by (simp add: saveRepositoryStats_def Let_def)

text \<open>
  Claim C4, amended. Let the pagination return \<open>repos\<close>. Every record that
  \<open>fetchRepositoryStats\<close> produces has a non-empty \<open>language\<close>, the listed language or
  \<^verbatim>\<open>Unknown\<close> when that is missing (null or empty). In the summary that
  \<open>saveRepositoryStats\<close> makes of these records, \<open>by_language\<close> counts every record
  under its language, so a repository with a missing language is counted under
  \<^verbatim>\<open>Unknown\<close> and not left out, and the counts add up to \<open>total_repos\<close> exactly.
\<close>

theorem missing_language_counted_as_unknown:
  assumes "collect_pages oct owner 1 [] = Some (Inr repos)"
  shows "\<exists>repoStats savedStats sorted.
      fetchRepositoryStats oct owner = Some repoStats \<and>
      fetch_and_save oct owner now = Some (savedStats, sorted) \<and>
      map language repoStats = map (\<lambda>r. or_string (repo_language r) ''Unknown'') repos \<and>
      list_all (\<lambda>r. language r \<noteq> []) repoStats \<and>
      total_repos savedStats = length repos \<and>
      sum_list (map snd (by_language savedStats)) = int (total_repos savedStats) \<and>
      (\<forall>l. map_of (by_language savedStats) l =
         (if l \<in> set (map language repoStats)
          then Some (int (length (filter (\<lambda>r. language r = l) repoStats)))
          else None)) \<and>
      map_of (by_language savedStats) ''Unknown'' =
         (if \<exists>r \<in> set repos. or_string (repo_language r) ''Unknown'' = ''Unknown''
          then Some (int (length
                 (filter (\<lambda>r. or_string (repo_language r) ''Unknown'' = ''Unknown'') repos)))
          else None)"
proof -
  let ?stats = "map (enrich oct owner) (map to_stat repos)"
  let ?saved = "fst (saveRepositoryStats now ?stats)"
  have f: "fetchRepositoryStats oct owner = Some ?stats"
    using assms by (simp add: fetchRepositoryStats_def)
  have s: "fetch_and_save oct owner now = Some (?saved, snd (saveRepositoryStats now ?stats))"
    using f by (simp add: fetch_and_save_def)
  have langs: "map language ?stats = map (\<lambda>r. or_string (repo_language r) ''Unknown'') repos"
    by (simp add: language_enrich)
  have ne: "list_all (\<lambda>r. language r \<noteq> []) ?stats"
    by (simp add: list_all_iff language_enrich or_string_nonempty)
  then have all: "filter (\<lambda>r. language r \<noteq> []) ?stats = ?stats"
    by (simp add: list_all_iff)
  have tot: "total_repos ?saved = length repos"
    by (simp add: total_repos_saved)
  have "sum_list (map snd (by_language ?saved)) =
          int (length (filter (\<lambda>r. language r \<noteq> []) (sort_with compare_activity ?stats)))"
    by (simp add: by_language_saved sum_count_languages)
  also have "\<dots> = int (length (filter (\<lambda>r. language r \<noteq> []) ?stats))"
    by (simp only: length_filter_sort_with)
  also have "\<dots> = int (total_repos ?saved)"
    by (simp only: all tot) simp
  finally have sum: "sum_list (map snd (by_language ?saved)) = int (total_repos ?saved)" .
  have each: "map_of (by_language ?saved) l =
         (if l \<in> set (map language ?stats)
          then Some (int (length (filter (\<lambda>r. language r = l) ?stats)))
          else None)" for l
  proof -
    have "l \<in> language ` set ?stats \<Longrightarrow> l \<noteq> []"
      using ne by (auto simp: list_all_iff)
    then show ?thesis
      by (auto simp: by_language_saved map_of_count_languages set_sort_with
          length_filter_sort_with)
  qed
  have cnt: "length (filter (\<lambda>r. language r = l) ?stats) =
             length (filter (\<lambda>r. or_string (repo_language r) ''Unknown'' = l) repos)" for l
    by (simp add: filter_map o_def language_enrich)
  have unknown: "map_of (by_language ?saved) ''Unknown'' =
         (if \<exists>r \<in> set repos. or_string (repo_language r) ''Unknown'' = ''Unknown''
          then Some (int (length
                 (filter (\<lambda>r. or_string (repo_language r) ''Unknown'' = ''Unknown'') repos)))
          else None)"
    unfolding each [of "''Unknown''"] cnt langs by (force simp: image_iff)
  show ?thesis
    using f s langs ne tot sum each unknown by blast
qed


text \<open>
  Witness for C4: three repositories with languages C, none and Rust.
\<close>

theorem missing_language_counted_as_unknown_witness:
  "map_option (\<lambda>(savedStats, sorted).
       (map language sorted, by_language savedStats, total_repos savedStats))
     (fetch_and_save (example_octokit three_pages (\<lambda>r. Inr [1, 2]) []) ''owner'' ''t'') =
   Some ([''C'', ''Unknown'', ''Rust''], [(''C'', 1), (''Unknown'', 1), (''Rust'', 1)], 3)"
proof -
  let ?oct = "example_octokit three_pages (\<lambda>r. Inr [1, 2]) []"
  let ?repos = "[example_repo ''a'' (Some ''C''), example_repo ''b'' None,
                 example_repo ''c'' (Some ''Rust'')]"
  have e: "listForUser ?oct (page_request ''owner'' 3) = Inr []"
    by (simp add: example_octokit_def page_request_def three_pages_def)
  have ne: "\<forall>q. 1 \<le> q \<and> q < 3 \<longrightarrow>
              (\<exists>d. listForUser ?oct (page_request ''owner'' q) = Inr d \<and> d \<noteq> [])"
    by (simp add: example_octokit_def page_request_def three_pages_def)
  have u: "[Suc 0..<3] = [Suc 0, 2]" by (simp add: upt_conv_Cons)
  have d1: "page_data ?oct ''owner'' (Suc 0) = [example_repo ''a'' (Some ''C''), example_repo ''b'' None]"
    by (simp add: page_data_def example_octokit_def page_request_def three_pages_def)
  have d2: "page_data ?oct ''owner'' 2 = [example_repo ''c'' (Some ''Rust'')]"
    by (simp add: page_data_def example_octokit_def page_request_def three_pages_def)
  have c: "collect_pages ?oct ''owner'' 1 [] = Some (Inr ?repos)"
    using collect_pages_result_aux [of 1 2 3 ?oct "''owner''" "[]", OF _ e ne]
    by (simp add: u d1 d2)
  have act: "recent_activity (enrich ?oct ''owner'' r) = Count 3" for r
    by (simp add: enrich_def example_octokit_def last4_def)
  have lang: "map language (map (enrich ?oct ''owner'') (map to_stat ?repos)) =
      [''C'', ''Unknown'', ''Rust'']"
    by (simp add: language_enrich or_string_def example_repo_def)
  have srt: "sort_with compare_activity (map (enrich ?oct ''owner'') (map to_stat ?repos)) =
      map (enrich ?oct ''owner'') (map to_stat ?repos)"
    by (simp add: sort_with_def SortCompare_def compare_activity_def act)
  from missing_language_counted_as_unknown [OF c, of "''t''"]
  obtain repoStats savedStats sorted where
    r: "fetchRepositoryStats ?oct ''owner'' = Some repoStats"
      "fetch_and_save ?oct ''owner'' ''t'' = Some (savedStats, sorted)"
      "total_repos savedStats = length ?repos"
    by blast
  have rs: "repoStats = map (enrich ?oct ''owner'') (map to_stat ?repos)"
    using r(1) c by (simp add: fetchRepositoryStats_def)
  have sv: "savedStats = fst (saveRepositoryStats ''t'' repoStats)"
       "sorted = snd (saveRepositoryStats ''t'' repoStats)"
    using r(1,2) by (simp_all add: fetch_and_save_def)
  have "sorted = repoStats"
    unfolding sv rs using srt by (simp add: saveRepositoryStats_def Let_def)
  moreover have "by_language savedStats = [(''C'', 1), (''Unknown'', 1), (''Rust'', 1)]"
    unfolding sv(1) by_language_saved rs srt
    using lang by (simp add: bump_def)
  ultimately show ?thesis
    using r(2,3) lang rs by simp
qed

text \<open>
  Claim C4 as stated fails: a single listed repository whose language is null is
  recorded with language \<^verbatim>\<open>Unknown\<close> and the tally is \<^verbatim>\<open>{Unknown: 1}\<close>; it is not
  excluded from \<open>by_language\<close>.
\<close>

theorem missing_language_is_tallied:
  "repo_language (example_repo ''a'' None) = None \<and>
   map_option (\<lambda>(savedStats, sorted).
       (map language sorted, by_language savedStats, total_repos savedStats))
     (fetch_and_save (example_octokit one_page (\<lambda>r. Inr [1, 2]) []) ''owner'' ''t'') =
   Some ([''Unknown''], [(''Unknown'', 1)], 1)"
proof -
  let ?oct = "example_octokit one_page (\<lambda>r. Inr [1, 2]) []"
  have e: "listForUser ?oct (page_request ''owner'' 2) = Inr []"
    by (simp add: example_octokit_def page_request_def one_page_def)
  have ne: "\<forall>q. 1 \<le> q \<and> q < 2 \<longrightarrow>
              (\<exists>d. listForUser ?oct (page_request ''owner'' q) = Inr d \<and> d \<noteq> [])"
    by (auto simp: example_octokit_def page_request_def one_page_def)
  have d1: "page_data ?oct ''owner'' (Suc 0) = [example_repo ''a'' None]"
    by (simp add: page_data_def example_octokit_def page_request_def one_page_def)
  have c: "collect_pages ?oct ''owner'' 1 [] = Some (Inr [example_repo ''a'' None])"
    using collect_pages_result_aux [of 1 1 2 ?oct "''owner''" "[]", OF _ e ne]
    by (simp add: d1 upt_conv_Cons)
  have l: "language (enrich ?oct ''owner'' (to_stat (example_repo ''a'' None))) = ''Unknown''"
    by (simp add: language_enrich or_string_def example_repo_def)
  have "repo_language (example_repo ''a'' None) = None"
    by (simp add: example_repo_def)
  then show ?thesis
    using c l
    by (simp add: fetch_and_save_def fetchRepositoryStats_def saveRepositoryStats_def Let_def
        sort_with_def bump_def)
qed

text \<open>
  When no record holds \<^verbatim>\<open>'N/A'\<close> the comparator is consistent, and the sort is the
  stable sort by descending activity: \<open>most_active\<close> is then the first five records
  of that order.
\<close>

lemma SortCompare_numeric:
  "recent_activity a \<noteq> NA \<Longrightarrow> recent_activity b \<noteq> NA \<Longrightarrow>
     SortCompare compare_activity a b = activity_value b - activity_value a"
  by (cases "recent_activity a"; cases "recent_activity b")
    (simp_all add: SortCompare_def compare_activity_def activity_value_def)

lemma move_left_descending:
  assumes "\<forall>y \<in> set ys. (SortCompare c x y < 0) = (f x < f y)"
    and "sorted_wrt (\<lambda>a b. f b \<le> f a) ys"
  shows "sorted_wrt (\<lambda>a b. (f b :: int) \<le> f a) (move_left c x ys)"
  using assms
proof (induction ys)
  case Nil
  then show ?case by simp
next
  case (Cons y ys)
  have set_ml: "set (move_left c x ys) = insert x (set ys)" for ys
    by (induction ys) auto
  show ?case
  proof (cases "SortCompare c x y < 0")
    case True
    then have "f x < f y" using Cons.prems(1) by simp
    moreover have "sorted_wrt (\<lambda>a b. f b \<le> f a) (move_left c x ys)"
      using Cons by simp
    ultimately show ?thesis
      using True Cons.prems(2) by (auto simp: set_ml)
  next
    case False
    then have "f y \<le> f x" using Cons.prems(1) by auto
    then show ?thesis
      using False Cons.prems(2) by auto
  qed
qed

lemma move_left_stable:
  assumes "\<forall>y \<in> set ys. (SortCompare c x y < 0) = (f x < f y)"
  shows "filter (\<lambda>z. (f z :: int) = k) (move_left c x ys) = filter (\<lambda>z. f z = k) (x # ys)"
  using assms by (induction ys) auto

lemma insertions_sorted_stable:
  assumes "\<forall>x \<in> set xs \<union> set acc. \<forall>y \<in> set xs \<union> set acc. (SortCompare c x y < 0) = (f x < f y)"
    and "sorted_wrt (\<lambda>a b. (f b :: int) \<le> f a) acc"
  shows "sorted_wrt (\<lambda>a b. f b \<le> f a) (foldl (\<lambda>acc x. move_left c x acc) acc xs) \<and>
         (\<forall>k. filter (\<lambda>z. f z = k) (foldl (\<lambda>acc x. move_left c x acc) acc xs) =
               rev (filter (\<lambda>z. f z = k) xs) @ filter (\<lambda>z. f z = k) acc)"
  using assms
proof (induction xs arbitrary: acc)
  case Nil
  then show ?case by simp
next
  case (Cons x xs)
  have set_ml: "set (move_left c x acc) = insert x (set acc)"
    by (induction acc) auto
  have one: "\<forall>y \<in> set acc. (SortCompare c x y < 0) = (f x < f y)"
    using Cons.prems(1) by simp
  have s: "sorted_wrt (\<lambda>a b. f b \<le> f a) (move_left c x acc)"
    using one Cons.prems(2) by (rule move_left_descending)
  have p: "\<forall>a \<in> set xs \<union> set (move_left c x acc). \<forall>b \<in> set xs \<union> set (move_left c x acc).
             (SortCompare c a b < 0) = (f a < f b)"
    using Cons.prems(1) by (simp add: set_ml)
  from Cons.IH [OF p s] move_left_stable [OF one]
  show ?case by simp
qed

lemma sort_with_is_stable_sort:
  assumes "\<forall>x \<in> set xs. \<forall>y \<in> set xs. (SortCompare c x y < 0) = ((f x :: int) < f y)"
  shows "sort_with c xs = sort_key f xs"
proof -
  let ?ys = "foldl (\<lambda>acc x. move_left c x acc) [] xs"
  have inv: "sorted_wrt (\<lambda>a b. f b \<le> f a) ?ys"
    "\<And>k. filter (\<lambda>z. f z = k) ?ys = rev (filter (\<lambda>z. f z = k) xs)"
    using insertions_sorted_stable [of xs "[]" c f] assms by simp_all
  have "sort_key f xs = rev ?ys"
  proof (rule properties_for_sort_key)
    show "mset (rev ?ys) = mset xs"
      using mset_sort_with [of c xs] by (simp add: sort_with_def)
    show "sorted (map f (rev ?ys))"
      using inv(1) by (simp add: sorted_map sorted_wrt_rev)
    show "filter (\<lambda>x. f k = f x) (rev ?ys) = filter (\<lambda>x. f k = f x) xs" for k
    proof -
      have "filter (\<lambda>z. f z = f k) (rev ?ys) = rev (rev (filter (\<lambda>z. f z = f k) xs))"
        unfolding rev_filter [symmetric] inv(2) [of "f k"] ..
      then show ?thesis by (simp add: eq_commute)
    qed
  qed
  then show ?thesis by (simp add: sort_with_def)
qed

lemma sort_numeric_activity:
  assumes "\<forall>r \<in> set stats. recent_activity r \<noteq> NA"
  shows "sort_with compare_activity stats = sort_key (\<lambda>r. - activity_value r) stats"
  by (rule sort_with_is_stable_sort) (use assms in \<open>auto simp: SortCompare_numeric\<close>)


lemma most_active_numeric:
  assumes "\<forall>r \<in> set stats. recent_activity r \<noteq> NA"
  shows "most_active (fst (saveRepositoryStats now stats)) =
           map (\<lambda>r. (name r, recent_activity r))
             (take 5 (sort_key (\<lambda>r. - activity_value r) stats)) \<and>
         length (most_active (fst (saveRepositoryStats now stats))) \<le> 5"
  using sort_numeric_activity [OF assms]
  by (simp add: saveRepositoryStats_def Let_def)

text \<open>
  The sort works in place: \<open>repositories\<close> is the caller's array after the call, a
  permutation of the records given, each record as it was.
\<close>

lemma sort_in_place_frame:
  "repositories (fst (saveRepositoryStats now stats)) = snd (saveRepositoryStats now stats) \<and>
   snd (saveRepositoryStats now stats) = sort_with compare_activity stats \<and>
   mset (snd (saveRepositoryStats now stats)) = mset stats"
  by (simp add: saveRepositoryStats_def Let_def mset_sort_with)

text \<open>
  Claim C5 fails on the code when a record holds \<^verbatim>\<open>'N/A'\<close>, which
  \<open>fetchRepositoryStats\<close> stores when the commit activity cannot be fetched. The string
  is truthy, so \<^verbatim>\<open>|| 0\<close> leaves it, the subtraction gives not-a-number, and the sort
  takes the record for equal to every other. On activities 5, \<^verbatim>\<open>'N/A'\<close>, 10 every
  neighbouring pair compares equal, the order stays, and \<open>most_active\<close> lists 5 before
  10: it is not sorted descending. The second equation is the same case run through
  \<open>fetchRepositoryStats\<close>, on a client whose commit-activity request fails for the
  second of three repositories.
\<close>

theorem most_active_not_sorted:
  "most_active (fst (saveRepositoryStats now
      [a\<lparr>recent_activity := Count 5\<rparr>, b\<lparr>recent_activity := NA\<rparr>,
       c\<lparr>recent_activity := Count 10\<rparr>])) =
     [(name a, Count 5), (name b, NA), (name c, Count 10)] \<and>
   map_option (\<lambda>(savedStats, sorted). most_active savedStats)
     (fetch_and_save
        (example_octokit three_pages
           (\<lambda>repo. if repo = ''a'' then Inr [2, 3]
                   else if repo = ''b'' then Inl (HttpError ''Accepted'')
                   else Inr [7, 1, 2, 3, 4])
           [])
        ''owner'' ''t'') =
     Some [(''a'', Count 5), (''b'', NA), (''c'', Count 10)]"
proof -
  let ?oct = "example_octokit three_pages
           (\<lambda>repo. if repo = ''a'' then Inr [2, 3]
                   else if repo = ''b'' then Inl (HttpError ''Accepted'')
                   else Inr [7, 1, 2, 3, 4])
           []"
  have e: "listForUser ?oct (page_request ''owner'' 3) = Inr []"
    by (simp add: example_octokit_def page_request_def three_pages_def)
  have ne: "\<forall>q. 1 \<le> q \<and> q < 3 \<longrightarrow>
              (\<exists>d. listForUser ?oct (page_request ''owner'' q) = Inr d \<and> d \<noteq> [])"
    by (simp add: example_octokit_def page_request_def three_pages_def)
  have u: "[Suc 0..<3] = [Suc 0, 2]" by (simp add: upt_conv_Cons)
  have d1: "page_data ?oct ''owner'' (Suc 0) = [example_repo ''a'' (Some ''C''), example_repo ''b'' None]"
    by (simp add: page_data_def example_octokit_def page_request_def three_pages_def)
  have d2: "page_data ?oct ''owner'' 2 = [example_repo ''c'' (Some ''Rust'')]"
    by (simp add: page_data_def example_octokit_def page_request_def three_pages_def)
  have c: "collect_pages ?oct ''owner'' 1 [] =
      Some (Inr [example_repo ''a'' (Some ''C''), example_repo ''b'' None,
                 example_repo ''c'' (Some ''Rust'')])"
    using collect_pages_result_aux [of 1 2 3 ?oct "''owner''" "[]", OF _ e ne]
    by (simp add: u d1 d2)
  have a: "enrich ?oct ''owner'' (to_stat (example_repo ''a'' l)) =
      (to_stat (example_repo ''a'' l))\<lparr>total_commits := Count 5, recent_activity := Count 5\<rparr>" for l
    by (simp add: enrich_def to_stat_def example_repo_def example_octokit_def last4_def)
  have b: "enrich ?oct ''owner'' (to_stat (example_repo ''b'' l)) =
      (to_stat (example_repo ''b'' l))\<lparr>total_commits := NA, recent_activity := NA\<rparr>" for l
    by (simp add: enrich_def to_stat_def example_repo_def example_octokit_def last4_def)
  have cc: "enrich ?oct ''owner'' (to_stat (example_repo ''c'' l)) =
      (to_stat (example_repo ''c'' l))\<lparr>total_commits := Count 17, recent_activity := Count 10\<rparr>" for l
    by (simp add: enrich_def to_stat_def example_repo_def example_octokit_def last4_def)
  have n: "name (to_stat (example_repo x l)) = x" for x l
    by (simp add: to_stat_def example_repo_def)
  have first: "most_active (fst (saveRepositoryStats now
      [a\<lparr>recent_activity := Count 5\<rparr>, b\<lparr>recent_activity := NA\<rparr>,
       c\<lparr>recent_activity := Count 10\<rparr>])) =
     [(name a, Count 5), (name b, NA), (name c, Count 10)]" for now a b c
    by (simp add: saveRepositoryStats_def Let_def sort_with_def SortCompare_def
        compare_activity_def)
  have "fetch_and_save ?oct ''owner'' ''t'' =
      Some (saveRepositoryStats ''t''
        [(to_stat (example_repo ''a'' (Some ''C'')))\<lparr>total_commits := Count 5, recent_activity := Count 5\<rparr>,
         (to_stat (example_repo ''b'' None))\<lparr>total_commits := NA, recent_activity := NA\<rparr>,
         (to_stat (example_repo ''c'' (Some ''Rust'')))\<lparr>total_commits := Count 17, recent_activity := Count 10\<rparr>])"
    using c by (simp add: fetch_and_save_def fetchRepositoryStats_def a b cc)
  then show ?thesis
    using first by (simp add: n split_beta)
qed

text \<open>
  Claim C10 fails on the code for the same reason: \<^verbatim>\<open>'N/A'\<close> is not coerced to 0. On
  activities 5, \<^verbatim>\<open>'N/A'\<close>, 10 the caller's array and \<open>repositories\<close> are left in the
  order given, which is not descending (with \<^verbatim>\<open>'N/A'\<close> read as 0 it would be 10, 5,
  \<^verbatim>\<open>'N/A'\<close>).
\<close>

theorem sort_leaves_order:
  "snd (saveRepositoryStats now
      [a\<lparr>recent_activity := Count 5\<rparr>, b\<lparr>recent_activity := NA\<rparr>,
       c\<lparr>recent_activity := Count 10\<rparr>]) =
     [a\<lparr>recent_activity := Count 5\<rparr>, b\<lparr>recent_activity := NA\<rparr>,
      c\<lparr>recent_activity := Count 10\<rparr>] \<and>
   repositories (fst (saveRepositoryStats now
      [a\<lparr>recent_activity := Count 5\<rparr>, b\<lparr>recent_activity := NA\<rparr>,
       c\<lparr>recent_activity := Count 10\<rparr>])) =
     [a\<lparr>recent_activity := Count 5\<rparr>, b\<lparr>recent_activity := NA\<rparr>,
      c\<lparr>recent_activity := Count 10\<rparr>]"
  by (simp add: saveRepositoryStats_def Let_def sort_with_def SortCompare_def compare_activity_def)

end
